theory Spec2Isabelle
  imports Main "HOL-Library.AList"
begin

section \<open>The render node of libnodegl (node_render.c)\<close>

subsection \<open>Data model\<close>

text \<open>
  Node pointers are addresses; a nullable pointer is an \<open>addr option\<close> with \<open>None\<close> for
  NULL. A non-NULL pointer is taken to be valid: the buffer nodes live in a total store
  \<open>bufs\<close> from addresses to their private data.
\<close>

type_synonym addr = nat

text \<open>The fields of \<open>struct buffer_priv\<close> that node_render.c reads.\<close>

record buffer_priv =
  count :: int
  data_format :: int
  block :: "addr option"
  buffer_id :: nat

text \<open>The fields of \<open>struct geometry_priv\<close> that node_render.c reads.\<close>

record geometry_priv =
  vertices_buffer :: "addr option"
  uvcoords_buffer :: "addr option"
  normals_buffer :: "addr option"
  indices_buffer :: "addr option"
  topology :: int

text \<open>
  A \<open>struct hmap\<close> holding buffer nodes: its entries in the order \<open>ngli_hmap_next\<close>
  walks them. A nullable \<open>struct hmap *\<close> is an \<open>hmap option\<close>.
\<close>

type_synonym hmap = "(string \<times> addr) list"

text \<open>The four functions the \<open>draw\<close> function pointer can point to.\<close>

datatype draw_proc =
  Draw_elements | Draw_elements_instanced | Draw_arrays | Draw_arrays_instanced

record render_priv =
  program :: "addr option"
  textures :: "hmap option"
  uniforms :: "hmap option"
  blocks :: "hmap option"
  attributes :: "hmap option"
  instance_attributes :: "hmap option"
  nb_instances :: int
  pass_attributes :: "hmap option"
  has_indices_buffer_ref :: int
  indices_type :: int
  draw :: "draw_proc option"

record pass_params =
  pp_label :: string
  pp_program :: "addr option"
  pp_textures :: "hmap option"
  pp_uniforms :: "hmap option"
  pp_blocks :: "hmap option"
  pp_attributes :: "hmap option"
  pp_instance_attributes :: "hmap option"

subsection \<open>Effects\<close>

text \<open>
  Calls that leave node_render.c (the logger, the node and pass subsystems, the GL
  wrappers) are recorded in a trace, each with the arguments the source passes and, for
  a call whose result the source tests, the value it returned.
\<close>

datatype log_arg = Arg_str string | Arg_int int

datatype gl_target = GL_ELEMENT_ARRAY_BUFFER

datatype event =
    Log_error string "log_arg list"
  | Node_create_program "addr option"
  | Node_attach_ctx addr int
  | Node_buffer_ref addr int
  | Node_buffer_unref "addr option"
  | Node_update int
  | Pass_init pass_params int
  | Pass_uninit
  | Pass_update int
  | Pass_bind int
  | Pass_unbind int
  | GlBindBuffer gl_target nat
  | GlDrawElements int int int nat
  | GlDrawElementsInstanced int int int nat int
  | GlDrawArrays int nat int
  | GlDrawArraysInstanced int nat int int

text \<open>
  The feature bits of \<open>gl->features\<close> tested by the source. The macros
  \<open>NGLI_FEATURE_DRAW_INSTANCED\<close> and \<open>NGLI_FEATURE_INSTANCED_ARRAY\<close> are not in
  node_render.c; the test \<open>gl->features & F\<close> is membership of \<open>F\<close> in the set.
\<close>

datatype feature = NGLI_FEATURE_DRAW_INSTANCED | NGLI_FEATURE_INSTANCED_ARRAY

text \<open>
  What the callees outside node_render.c answer: the context's features, the results
  of the fallible calls, and the two pure lookups. \<open>hmap_set_ret e n\<close> is the result of
  the \<open>n\<close>-th call (from 0) of \<open>ngli_hmap_set\<close> made by \<open>init_attributes\<close>.
\<close>

record env =
  features :: "feature set"
  node_create :: "addr option"
  attach_ctx_ret :: int
  buffer_ref_ret :: int
  hmap_create_ok :: bool
  hmap_set_ret :: "nat \<Rightarrow> int"
  pass_init_ret :: int
  node_update_ret :: int
  pass_update_ret :: int
  pass_bind_ret :: int
  pass_unbind_ret :: int
  format_get_gl_type :: "int \<Rightarrow> int"
  topology_get_gl_topology :: "int \<Rightarrow> int"

text \<open>
  The memory a render node works on: its own private data (\<open>node->priv_data\<close>), its
  label, the private data of its geometry node (\<open>s->geometry->priv_data\<close>; the geometry
  is a constructor parameter), the buffer nodes, and the trace so far.
\<close>

record world =
  priv :: render_priv
  label :: string
  geometry :: geometry_priv
  bufs :: "addr \<Rightarrow> buffer_priv"
  trace :: "event list"

text \<open>Dereferencing NULL, or calling through a NULL function pointer.\<close>

datatype fault = Null_deref

definition emit :: "event list \<Rightarrow> world \<Rightarrow> world" where
  "emit evs w = w\<lparr>trace := trace w @ evs\<rparr>"

definition LOG_ERROR :: "string \<Rightarrow> log_arg list \<Rightarrow> world \<Rightarrow> world" where
  "LOG_ERROR fmt args w = emit [Log_error fmt args] w"

text \<open>
  The idiom \<open>ret = f(...); if (ret < 0) return ret;\<close>: a negative result (or a fault)
  ends the function, anything else goes on with the state the call left.
\<close>

definition and_then ::
  "fault + (int \<times> world) \<Rightarrow> (world \<Rightarrow> fault + (int \<times> world)) \<Rightarrow> fault + (int \<times> world)" where
  "and_then r k =
     (case r of
        Inl f \<Rightarrow> Inl f
      | Inr (ret, w) \<Rightarrow> if ret < 0 then Inr (ret, w) else k w)"

subsection \<open>The draw procedures\<close>

definition draw_elements :: "env \<Rightarrow> world \<Rightarrow> fault + world" where
  "draw_elements e w =
     (case indices_buffer (geometry w) of
        None \<Rightarrow> Inl Null_deref
      | Some ib \<Rightarrow>
          let indices = bufs w ib;
              gl_topology = topology_get_gl_topology e (topology (geometry w))
          in Inr (emit [GlBindBuffer GL_ELEMENT_ARRAY_BUFFER (buffer_id indices),
                        GlDrawElements gl_topology (count indices)
                          (indices_type (priv w)) 0] w))"

definition draw_elements_instanced :: "env \<Rightarrow> world \<Rightarrow> fault + world" where
  "draw_elements_instanced e w =
     (case indices_buffer (geometry w) of
        None \<Rightarrow> Inl Null_deref
      | Some ib \<Rightarrow>
          let indices = bufs w ib;
              gl_topology = topology_get_gl_topology e (topology (geometry w))
          in Inr (emit [GlBindBuffer GL_ELEMENT_ARRAY_BUFFER (buffer_id indices),
                        GlDrawElementsInstanced gl_topology (count indices)
                          (indices_type (priv w)) 0 (nb_instances (priv w))] w))"

definition draw_arrays :: "env \<Rightarrow> world \<Rightarrow> fault + world" where
  "draw_arrays e w =
     (case vertices_buffer (geometry w) of
        None \<Rightarrow> Inl Null_deref
      | Some vb \<Rightarrow>
          let vertices = bufs w vb;
              gl_topology = topology_get_gl_topology e (topology (geometry w))
          in Inr (emit [GlDrawArrays gl_topology 0 (count vertices)] w))"

definition draw_arrays_instanced :: "env \<Rightarrow> world \<Rightarrow> fault + world" where
  "draw_arrays_instanced e w =
     (case vertices_buffer (geometry w) of
        None \<Rightarrow> Inl Null_deref
      | Some vb \<Rightarrow>
          let vertices = bufs w vb;
              gl_topology = topology_get_gl_topology e (topology (geometry w))
          in Inr (emit [GlDrawArraysInstanced gl_topology 0 (count vertices)
                          (nb_instances (priv w))] w))"

text \<open>Calling through the function pointer \<open>s->draw\<close>.\<close>

fun call_draw :: "draw_proc \<Rightarrow> env \<Rightarrow> world \<Rightarrow> fault + world" where
  "call_draw Draw_elements e w = draw_elements e w"
| "call_draw Draw_elements_instanced e w = draw_elements_instanced e w"
| "call_draw Draw_arrays e w = draw_arrays e w"
| "call_draw Draw_arrays_instanced e w = draw_arrays_instanced e w"

subsection \<open>check_attributes\<close>

text \<open>The body of the \<open>while\<close> loop over the entries of the map.\<close>

fun check_entries :: "world \<Rightarrow> hmap \<Rightarrow> int \<Rightarrow> fault + (int \<times> world)" where
  "check_entries w [] per_instance = Inr (0, w)"
| "check_entries w ((key, anode) # rest) per_instance =
     (let buffer = bufs w anode in
      if per_instance \<noteq> 0 then
        (if count buffer \<noteq> nb_instances (priv w) then
           Inr (- 1, LOG_ERROR
                  ''attribute buffer %s count (%d) does not match instance count (%d)''
                  [Arg_str key, Arg_int (count buffer), Arg_int (nb_instances (priv w))] w)
         else check_entries w rest per_instance)
      else
        (case vertices_buffer (geometry w) of
           None \<Rightarrow> Inl Null_deref
         | Some vb \<Rightarrow>
             let vertices = bufs w vb in
             if count buffer \<noteq> count vertices then
               Inr (- 1, LOG_ERROR
                      ''attribute buffer %s count (%d) does not match vertices count (%d)''
                      [Arg_str key, Arg_int (count buffer), Arg_int (count vertices)] w)
             else check_entries w rest per_instance))"

definition check_attributes :: "world \<Rightarrow> hmap option \<Rightarrow> int \<Rightarrow> fault + (int \<times> world)" where
  "check_attributes w attrs per_instance =
     (case attrs of
        None \<Rightarrow> Inr (0, w)
      | Some entries \<Rightarrow> check_entries w entries per_instance)"

subsection \<open>init_attributes\<close>

definition attrib_const_map :: "(string \<times> (geometry_priv \<Rightarrow> addr option)) list" where
  "attrib_const_map =
     [(''ngl_position'', vertices_buffer),
      (''ngl_uvcoord'', uvcoords_buffer),
      (''ngl_normal'', normals_buffer)]"

text \<open>
  Modelled from the spec: \<open>ngli_hmap_set\<close> (hmap.c is not among the sources). Inserting
  under a key already present overwrites the previous value; a negative result is a
  failed insertion, which leaves the map as it was. \<open>n\<close> counts the calls.
\<close>

definition ngli_hmap_set :: "env \<Rightarrow> nat \<Rightarrow> hmap \<Rightarrow> string \<Rightarrow> addr \<Rightarrow> int \<times> hmap" where
  "ngli_hmap_set e n m key data =
     (if hmap_set_ret e n < 0 then (hmap_set_ret e n, m)
      else (hmap_set_ret e n, AList.update key data m))"

text \<open>The first loop: every entry of \<open>s->attributes\<close> is set in \<open>s->pass_attributes\<close>.\<close>

fun copy_attributes :: "env \<Rightarrow> nat \<Rightarrow> hmap \<Rightarrow> hmap \<Rightarrow> int \<times> nat \<times> hmap" where
  "copy_attributes e n [] m = (0, n, m)"
| "copy_attributes e n ((key, anode) # rest) m =
     (case ngli_hmap_set e n m key anode of
        (ret, m') \<Rightarrow> if ret < 0 then (ret, Suc n, m') else copy_attributes e (Suc n) rest m')"

text \<open>The second loop, over \<open>attrib_const_map\<close>; a NULL slot is skipped.\<close>

fun set_const_attributes ::
  "env \<Rightarrow> geometry_priv \<Rightarrow> nat \<Rightarrow> (string \<times> (geometry_priv \<Rightarrow> addr option)) list \<Rightarrow> hmap
     \<Rightarrow> int \<times> hmap" where
  "set_const_attributes e g n [] m = (0, m)"
| "set_const_attributes e g n ((const_name, slot) # rest) m =
     (case slot g of
        None \<Rightarrow> set_const_attributes e g n rest m
      | Some anode \<Rightarrow>
          (case ngli_hmap_set e n m const_name anode of
             (ret, m') \<Rightarrow>
               if ret < 0 then (ret, m') else set_const_attributes e g (Suc n) rest m'))"

definition set_pass_attributes :: "hmap option \<Rightarrow> world \<Rightarrow> world" where
  "set_pass_attributes m w = w\<lparr>priv := (priv w)\<lparr>pass_attributes := m\<rparr>\<rparr>"

definition init_attributes :: "env \<Rightarrow> world \<Rightarrow> fault + (int \<times> world)" where
  "init_attributes e w =
     (if \<not> hmap_create_ok e then Inr (- 1, set_pass_attributes None w)
      else
        case copy_attributes e 0 (case attributes (priv w) of None \<Rightarrow> [] | Some es \<Rightarrow> es) []
        of (ret, n, m) \<Rightarrow>
          if ret < 0 then Inr (ret, set_pass_attributes (Some m) w)
          else
            case set_const_attributes e (geometry w) n attrib_const_map m of
              (ret, m') \<Rightarrow>
                if ret < 0 then Inr (ret, set_pass_attributes (Some m') w)
                else Inr (0, set_pass_attributes (Some m') w))"

subsection \<open>render_init\<close>

definition instancing_checks :: "env \<Rightarrow> world \<Rightarrow> fault + (int \<times> world)" where
  "instancing_checks e w =
     (if nb_instances (priv w) \<noteq> 0 \<and> NGLI_FEATURE_DRAW_INSTANCED \<notin> features e then
        Inr (- 1, LOG_ERROR ''context does not support instanced draws'' [] w)
      else if instance_attributes (priv w) \<noteq> None
              \<and> NGLI_FEATURE_INSTANCED_ARRAY \<notin> features e then
        Inr (- 1, LOG_ERROR ''context does not support instanced arrays'' [] w)
      else Inr (0, w))"

definition init_program :: "env \<Rightarrow> world \<Rightarrow> fault + (int \<times> world)" where
  "init_program e w =
     (if program (priv w) = None then
        (let w1 = emit [Node_create_program (node_create e)]
                    (w\<lparr>priv := (priv w)\<lparr>program := node_create e\<rparr>\<rparr>)
         in case node_create e of
              None \<Rightarrow> Inr (- 1, w1)
            | Some p \<Rightarrow>
                let ret = attach_ctx_ret e;
                    w2 = emit [Node_attach_ctx p ret] w1
                in if ret < 0 then Inr (ret, w2) else Inr (0, w2))
      else Inr (0, w))"

definition init_indices :: "env \<Rightarrow> world \<Rightarrow> fault + (int \<times> world)" where
  "init_indices e w =
     (case indices_buffer (geometry w) of
        None \<Rightarrow> Inr (0, w)
      | Some ib \<Rightarrow>
          let ret = buffer_ref_ret e;
              w1 = emit [Node_buffer_ref ib ret] w
          in if ret < 0 then Inr (ret, w1)
             else
               let w2 = w1\<lparr>priv := (priv w1)\<lparr>has_indices_buffer_ref := 1\<rparr>\<rparr>;
                   indices = bufs w2 ib
               in if block indices \<noteq> None then
                    Inr (- 1, LOG_ERROR
                           ''geometry indices buffers referencing a block are not supported''
                           [] w2)
                  else
                    Inr (0, w2\<lparr>priv := (priv w2)
                                 \<lparr>indices_type := format_get_gl_type e (data_format indices)\<rparr>\<rparr>))"

definition init_pass :: "env \<Rightarrow> world \<Rightarrow> fault + (int \<times> world)" where
  "init_pass e w =
     (let s = priv w;
          params = \<lparr>pp_label = label w,
                    pp_program = program s,
                    pp_textures = textures s,
                    pp_uniforms = uniforms s,
                    pp_blocks = blocks s,
                    pp_attributes = pass_attributes s,
                    pp_instance_attributes = instance_attributes s\<rparr>;
          ret = pass_init_ret e
      in Inr (ret, emit [Pass_init params ret] w))"

definition select_draw :: "world \<Rightarrow> fault + (int \<times> world)" where
  "select_draw w =
     (let s = priv w;
          d = (if indices_buffer (geometry w) \<noteq> None then
                 (if nb_instances s > 0 then Draw_elements_instanced else Draw_elements)
               else
                 (if nb_instances s > 0 then Draw_arrays_instanced else Draw_arrays))
      in Inr (0, w\<lparr>priv := s\<lparr>draw := Some d\<rparr>\<rparr>))"

definition render_init :: "env \<Rightarrow> world \<Rightarrow> fault + (int \<times> world)" where
  "render_init e w =
     and_then (instancing_checks e w) (\<lambda>w.
     and_then (check_attributes w (attributes (priv w)) 0) (\<lambda>w.
     and_then (check_attributes w (instance_attributes (priv w)) 1) (\<lambda>w.
     and_then (init_program e w) (\<lambda>w.
     and_then (init_indices e w) (\<lambda>w.
     and_then (init_attributes e w) (\<lambda>w.
     and_then (init_pass e w) select_draw))))))"

subsection \<open>render_uninit, render_update, render_draw\<close>

definition render_uninit :: "world \<Rightarrow> world" where
  "render_uninit w =
     (let w1 = emit [Pass_uninit] (set_pass_attributes None w)
      in if has_indices_buffer_ref (priv w1) \<noteq> 0 then
           emit [Node_buffer_unref (indices_buffer (geometry w1))] w1
         else w1)"

definition render_update :: "env \<Rightarrow> world \<Rightarrow> int \<times> world" where
  "render_update e w =
     (let ret = node_update_ret e;
          w1 = emit [Node_update ret] w
      in if ret < 0 then (ret, w1)
         else (pass_update_ret e, emit [Pass_update (pass_update_ret e)] w1))"

definition render_draw :: "env \<Rightarrow> world \<Rightarrow> fault + world" where
  "render_draw e w =
     (let ret = pass_bind_ret e;
          w1 = emit [Pass_bind ret] w;
          w2 = (if ret < 0 then LOG_ERROR ''pass upload data error'' [] w1 else w1)
      in case draw (priv w2) of
           None \<Rightarrow> Inl Null_deref
         | Some d \<Rightarrow>
             (case call_draw d e w2 of
                Inl f \<Rightarrow> Inl f
              | Inr w3 \<Rightarrow>
                  let ret = pass_unbind_ret e;
                      w4 = emit [Pass_unbind ret] w3
                  in Inr (if ret < 0 then LOG_ERROR ''could not unbind pass'' [] w4 else w4)))"

subsection \<open>The lifecycle after init\<close>

text \<open>
  The calls the scene graph makes on an initialised node, each with the answers the
  callees give during that call, run in order.
\<close>

datatype lifecycle_call = Call_update env | Call_draw env | Call_uninit

fun run_calls :: "lifecycle_call list \<Rightarrow> world \<Rightarrow> fault + world" where
  "run_calls [] w = Inr w"
| "run_calls (Call_update e # cs) w = run_calls cs (snd (render_update e w))"
| "run_calls (Call_draw e # cs) w =
     (case render_draw e w of Inl f \<Rightarrow> Inl f | Inr w' \<Rightarrow> run_calls cs w')"
| "run_calls (Call_uninit # cs) w = run_calls cs (render_uninit w)"

text \<open>The memory \<open>render_init\<close> leaves behind, whatever it returned.\<close>

definition initialized :: "env \<Rightarrow> world \<Rightarrow> world" where
  "initialized e w = (case render_init e w of Inr (ret, w') \<Rightarrow> w' | Inl f \<Rightarrow> w)"

text \<open>The events a call appended to the trace.\<close>

definition new_events :: "world \<Rightarrow> world \<Rightarrow> event list" where
  "new_events w w' = drop (length (trace w)) (trace w')"

fun is_draw_call :: "event \<Rightarrow> bool" where
  "is_draw_call (GlDrawElements t c ty off) = True"
| "is_draw_call (GlDrawElementsInstanced t c ty off n) = True"
| "is_draw_call (GlDrawArrays t first c) = True"
| "is_draw_call (GlDrawArraysInstanced t first c n) = True"
| "is_draw_call ev = False"

text \<open>
  Modelled from the spec: the reference counting of buffer nodes (node_buffer.c is not
  among the sources). A call of \<open>ngli_node_buffer_ref\<close> that does not fail acquires one
  shared reference on the buffer; a call of \<open>ngli_node_buffer_unref\<close> releases one.
\<close>

fun acquired :: "event list \<Rightarrow> addr list" where
  "acquired [] = []"
| "acquired (Node_buffer_ref a ret # evs) =
     (if ret < 0 then acquired evs else a # acquired evs)"
| "acquired (ev # evs) = acquired evs"

fun released :: "event list \<Rightarrow> addr option list" where
  "released [] = []"
| "released (Node_buffer_unref a # evs) = a # released evs"
| "released (ev # evs) = released evs"

section \<open>The specification's vocabulary\<close>

subsection \<open>Attribute validation\<close>

text \<open>
  The count an attribute buffer is compared with: the geometry's vertex count, or
  \<open>nb_instances\<close> for per-instance attributes. There is none when the geometry has no
  vertex buffer.
\<close>

definition expected_count :: "world \<Rightarrow> int \<Rightarrow> int option" where
  "expected_count w per_instance =
     (if per_instance \<noteq> 0 then Some (nb_instances (priv w))
      else map_option (\<lambda>vb. count (bufs w vb)) (vertices_buffer (geometry w)))"

definition mismatch_format :: "int \<Rightarrow> string" where
  "mismatch_format per_instance =
     (if per_instance \<noteq> 0
      then ''attribute buffer %s count (%d) does not match instance count (%d)''
      else ''attribute buffer %s count (%d) does not match vertices count (%d)'')"

text \<open>Some buffer of the map has a count other than the expected one.\<close>

definition count_mismatch :: "world \<Rightarrow> hmap option \<Rightarrow> int \<Rightarrow> bool" where
  "count_mismatch w attrs per_instance =
     (case attrs of
        None \<Rightarrow> False
      | Some es \<Rightarrow> \<exists>(k, a) \<in> set es. Some (count (bufs w a)) \<noteq> expected_count w per_instance)"

subsection \<open>Resource errors\<close>

definition user_attributes :: "world \<Rightarrow> hmap" where
  "user_attributes w = (case attributes (priv w) of None \<Rightarrow> [] | Some es \<Rightarrow> es)"

text \<open>The entries of \<open>attrib_const_map\<close> whose geometry slot is not NULL.\<close>

definition const_entries ::
  "geometry_priv \<Rightarrow> (string \<times> (geometry_priv \<Rightarrow> addr option)) list \<Rightarrow> hmap" where
  "const_entries g cs = List.map_filter (\<lambda>(name, slot). map_option (Pair name) (slot g)) cs"

text \<open>The default program cannot be created or attached.\<close>

definition program_error :: "env \<Rightarrow> world \<Rightarrow> bool" where
  "program_error e w \<longleftrightarrow>
     program (priv w) = None \<and> (node_create e = None \<or> attach_ctx_ret e < 0)"

text \<open>One of the insertions into \<open>pass_attributes\<close> fails.\<close>

definition hmap_set_fails :: "env \<Rightarrow> world \<Rightarrow> bool" where
  "hmap_set_fails e w \<longleftrightarrow>
     (\<exists>i \<in> set [0 ..< length (user_attributes w @ const_entries (geometry w) attrib_const_map)].
        hmap_set_ret e i < 0)"

text \<open>
  The resource errors of the specification: default-program creation, reference
  acquisition on the index buffer, construction of the derived attribute map, pass
  initialisation.
\<close>

definition resource_error :: "env \<Rightarrow> world \<Rightarrow> bool" where
  "resource_error e w \<longleftrightarrow>
     program_error e w \<or>
     (indices_buffer (geometry w) \<noteq> None \<and> buffer_ref_ret e < 0) \<or>
     \<not> hmap_create_ok e \<or>
     hmap_set_fails e w \<or>
     pass_init_ret e < 0"

text \<open>The geometry's index buffer references a storage block.\<close>

definition index_buffer_references_block :: "world \<Rightarrow> bool" where
  "index_buffer_references_block w =
     (case indices_buffer (geometry w) of
        None \<Rightarrow> False
      | Some ib \<Rightarrow> block (bufs w ib) \<noteq> None)"

text \<open>The index buffer cannot be used: no reference, or it is backed by a block.\<close>

definition indices_error :: "env \<Rightarrow> world \<Rightarrow> bool" where
  "indices_error e w \<longleftrightarrow>
     indices_buffer (geometry w) \<noteq> None \<and>
     (buffer_ref_ret e < 0 \<or> index_buffer_references_block w)"

text \<open>The calls that create and attach the default program when none was given.\<close>

definition default_program_events :: "env \<Rightarrow> world \<Rightarrow> event list" where
  "default_program_events e w =
     (case program (priv w) of
        Some q \<Rightarrow> []
      | None \<Rightarrow>
          (case node_create e of
             None \<Rightarrow> [Node_create_program None]
           | Some p \<Rightarrow>
               [Node_create_program (Some p), Node_attach_ctx p (attach_ctx_ret e)]))"

subsection \<open>When init fails\<close>

text \<open>
  The failure condition in the specification's words: (a) \<open>nb_instances > 0\<close> without
  instanced draws, (b) an \<open>instance_attributes\<close> map without instanced arrays, (c) a count
  mismatch in either map, (d) an index buffer that references a block; or a resource
  error.
\<close>

definition claimed_init_failure_condition :: "env \<Rightarrow> world \<Rightarrow> bool" where
  "claimed_init_failure_condition e w \<longleftrightarrow>
     (nb_instances (priv w) > 0 \<and> NGLI_FEATURE_DRAW_INSTANCED \<notin> features e) \<or>
     (instance_attributes (priv w) \<noteq> None \<and> NGLI_FEATURE_INSTANCED_ARRAY \<notin> features e) \<or>
     count_mismatch w (attributes (priv w)) 0 \<or>
     count_mismatch w (instance_attributes (priv w)) 1 \<or>
     index_buffer_references_block w \<or>
     resource_error e w"

text \<open>The same with (a) read as the source tests it: \<open>nb_instances\<close> is not zero.\<close>

definition init_failure_condition :: "env \<Rightarrow> world \<Rightarrow> bool" where
  "init_failure_condition e w \<longleftrightarrow>
     (nb_instances (priv w) \<noteq> 0 \<and> NGLI_FEATURE_DRAW_INSTANCED \<notin> features e) \<or>
     (instance_attributes (priv w) \<noteq> None \<and> NGLI_FEATURE_INSTANCED_ARRAY \<notin> features e) \<or>
     count_mismatch w (attributes (priv w)) 0 \<or>
     count_mismatch w (instance_attributes (priv w)) 1 \<or>
     index_buffer_references_block w \<or>
     resource_error e w"

subsection \<open>The derived attribute map\<close>

text \<open>
  The aggregation in the specification's words: a new map seeded with a copy of every
  user entry, then each builtin slot (position, UV coordinates, normal, in that order)
  inserted under its reserved name if and only if the geometry's buffer is not NULL,
  an insertion under a key already present overwriting the value.
\<close>

definition insert_slot :: "string \<Rightarrow> addr option \<Rightarrow> hmap \<Rightarrow> hmap" where
  "insert_slot name slot m = (case slot of None \<Rightarrow> m | Some a \<Rightarrow> AList.update name a m)"

definition spec_pass_attributes :: "hmap \<Rightarrow> geometry_priv \<Rightarrow> hmap" where
  "spec_pass_attributes user g =
     insert_slot ''ngl_normal'' (normals_buffer g)
       (insert_slot ''ngl_uvcoord'' (uvcoords_buffer g)
          (insert_slot ''ngl_position'' (vertices_buffer g)
             (foldl (\<lambda>m (k, a). AList.update k a m) [] user)))"

text \<open>The builtin buffer a reserved name stands for.\<close>

definition builtin_slot :: "geometry_priv \<Rightarrow> string \<Rightarrow> addr option" where
  "builtin_slot g name =
     (if name = ''ngl_position'' then vertices_buffer g
      else if name = ''ngl_uvcoord'' then uvcoords_buffer g
      else if name = ''ngl_normal'' then normals_buffer g
      else None)"

subsection \<open>The decision table\<close>

text \<open>
  The table of the draw-strategy selector, over \<open>has_indices\<close> (the geometry exposes an
  index buffer) and \<open>instanced\<close> (\<open>nb_instances > 0\<close>).
\<close>

fun decision_table :: "bool \<Rightarrow> bool \<Rightarrow> draw_proc" where
  "decision_table True False = Draw_elements"
| "decision_table True True = Draw_elements_instanced"
| "decision_table False False = Draw_arrays"
| "decision_table False True = Draw_arrays_instanced"

subsection \<open>What the selected procedure emits\<close>

text \<open>
  What the selected procedure emits, in the specification's words: an indexed draw binds
  the index buffer and draws with the index count and the index type, a non-indexed draw
  draws the vertex count from 0; the instanced variants pass \<open>nb_instances\<close>.
\<close>

definition table_draw_events :: "bool \<Rightarrow> int \<Rightarrow> int \<Rightarrow> int \<Rightarrow> int \<Rightarrow> nat \<Rightarrow> event list" where
  "table_draw_events has_indices nb gl_topology cnt ty bid =
     (if has_indices then
        [GlBindBuffer GL_ELEMENT_ARRAY_BUFFER bid,
         if nb > 0 then GlDrawElementsInstanced gl_topology cnt ty 0 nb
         else GlDrawElements gl_topology cnt ty 0]
      else
        [if nb > 0 then GlDrawArraysInstanced gl_topology 0 cnt nb
         else GlDrawArrays gl_topology 0 cnt])"

text \<open>The events of \<open>render_draw\<close> around the draw procedure.\<close>

definition bind_events :: "env \<Rightarrow> event list" where
  "bind_events e =
     Pass_bind (pass_bind_ret e) #
     (if pass_bind_ret e < 0 then [Log_error ''pass upload data error'' []] else [])"

definition unbind_events :: "env \<Rightarrow> event list" where
  "unbind_events e =
     Pass_unbind (pass_unbind_ret e) #
     (if pass_unbind_ret e < 0 then [Log_error ''could not unbind pass'' []] else [])"

subsection \<open>What the other stages keep\<close>

text \<open>The inputs of init that no stage of it writes.\<close>

definition frame :: "world \<Rightarrow> world \<Rightarrow> bool" where
  "frame w w' \<longleftrightarrow>
     geometry w' = geometry w \<and> bufs w' = bufs w \<and> label w' = label w \<and>
     nb_instances (priv w') = nb_instances (priv w) \<and>
     attributes (priv w') = attributes (priv w) \<and>
     instance_attributes (priv w') = instance_attributes (priv w) \<and>
     textures (priv w') = textures (priv w) \<and>
     uniforms (priv w') = uniforms (priv w) \<and>
     blocks (priv w') = blocks (priv w)"

text \<open>A stage that leaves the index buffer reference alone.\<close>

definition quiet :: "world \<Rightarrow> world \<Rightarrow> bool" where
  "quiet w w' \<longleftrightarrow>
     geometry w' = geometry w \<and>
     has_indices_buffer_ref (priv w') = has_indices_buffer_ref (priv w) \<and>
     (\<exists>evs. trace w' = trace w @ evs \<and> acquired evs = [] \<and> released evs = [])"

section \<open>Example scenes\<close>

text \<open>
  A store of buffers in which the buffer at address \<open>a\<close> holds \<open>a mod 10\<close> elements of
  format \<open>a div 10\<close>, and is backed by a block from address 90 on.
\<close>

definition demo_bufs :: "addr \<Rightarrow> buffer_priv" where
  "demo_bufs a =
     \<lparr>count = int (a mod 10), data_format = int (a div 10),
      block = (if 90 \<le> a then Some 50 else None), buffer_id = a\<rparr>"

text \<open>A context with both features in which every call succeeds.\<close>

definition demo_env :: env where
  "demo_env =
     \<lparr>features = {NGLI_FEATURE_DRAW_INSTANCED, NGLI_FEATURE_INSTANCED_ARRAY},
      node_create = Some 100, attach_ctx_ret = 0, buffer_ref_ret = 0,
      hmap_create_ok = True, hmap_set_ret = (\<lambda>n. 0), pass_init_ret = 0,
      node_update_ret = 0, pass_update_ret = 0, pass_bind_ret = 0, pass_unbind_ret = 0,
      format_get_gl_type = (\<lambda>f. 5000 + f), topology_get_gl_topology = (\<lambda>t. t)\<rparr>"

text \<open>A fresh render node with one user attribute and no program.\<close>

definition demo_render :: render_priv where
  "demo_render =
     \<lparr>program = None, textures = None, uniforms = None, blocks = None,
      attributes = Some [(''color'', 34)], instance_attributes = None, nb_instances = 0,
      pass_attributes = None, has_indices_buffer_ref = 0, indices_type = 0, draw = None\<rparr>"

definition demo_instanced :: render_priv where
  "demo_instanced =
     demo_render\<lparr>nb_instances := 2, instance_attributes := Some [(''offset'', 12)]\<rparr>"

text \<open>A geometry of 4 vertices and 6 indices, with UV coordinates and no normals.\<close>

definition demo_geometry :: geometry_priv where
  "demo_geometry =
     \<lparr>vertices_buffer = Some 4, uvcoords_buffer = Some 14, normals_buffer = None,
      indices_buffer = Some 6, topology = 4\<rparr>"

definition demo_unindexed :: geometry_priv where
  "demo_unindexed = demo_geometry\<lparr>indices_buffer := None\<rparr>"

definition demo_world :: world where
  "demo_world =
     \<lparr>priv = demo_render, label = ''render'', geometry = demo_geometry,
      bufs = demo_bufs, trace = []\<rparr>"

section \<open>Lemmas\<close>

subsection \<open>Sequencing\<close>

lemma and_then_Inr:
  "and_then r k = Inr (ret, w') \<Longrightarrow>
     (r = Inr (ret, w') \<and> ret < 0) \<or> (\<exists>r1 w1. r = Inr (r1, w1) \<and> 0 \<le> r1 \<and> k w1 = Inr (ret, w'))"
  by (auto simp: and_then_def split: sum.splits prod.splits if_splits)

lemma and_then_success:
  "and_then r k = Inr (0, w') \<Longrightarrow> \<exists>r1 w1. r = Inr (r1, w1) \<and> 0 \<le> r1 \<and> k w1 = Inr (0, w')"
  by (auto simp: and_then_def split: sum.splits prod.splits if_splits)

lemma and_then_cases:
  assumes "and_then (f w) k = Inr (r, w')"
    and "\<And>r1 w1. f w = Inr (r1, w1) \<Longrightarrow> Q w w1"
  shows "Q w w' \<or> (\<exists>w1. Q w w1 \<and> k w1 = Inr (r, w'))"
  using and_then_Inr [OF assms(1)] assms(2) by blast

subsection \<open>The validation loop\<close>

lemma check_entries_all_match:
  "expected_count w pi = Some n \<Longrightarrow> \<forall>(k, a) \<in> set es. count (bufs w a) = n
   \<Longrightarrow> check_entries w es pi = Inr (0, w)"
  by (induction es) (auto simp: expected_count_def split: if_splits)

lemma check_entries_first_mismatch:
  "expected_count w pi = Some n \<Longrightarrow> \<forall>(k, a) \<in> set pre. count (bufs w a) = n
   \<Longrightarrow> count (bufs w a) \<noteq> n
   \<Longrightarrow> check_entries w (pre @ (k, a) # post) pi =
       Inr (- 1, LOG_ERROR (mismatch_format pi)
                   [Arg_str k, Arg_int (count (bufs w a)), Arg_int n] w)"
  by (induction pre) (auto simp: expected_count_def mismatch_format_def split: if_splits)

lemma check_entries_find:
  "expected_count w pi = Some n \<Longrightarrow>
   check_entries w es pi =
     (case find (\<lambda>(k, a). count (bufs w a) \<noteq> n) es of
        None \<Rightarrow> Inr (0, w)
      | Some (k, a) \<Rightarrow>
          Inr (- 1, LOG_ERROR (mismatch_format pi)
                      [Arg_str k, Arg_int (count (bufs w a)), Arg_int n] w))"
  by (induction es) (auto simp: expected_count_def mismatch_format_def Let_def split: if_splits)

lemma find_SomeD: "find P es = Some x \<Longrightarrow> x \<in> set es \<and> P x"
  by (induction es) (auto split: if_splits)

lemma check_entries_ok_same:
  "check_entries w es pi = Inr (r, w') \<Longrightarrow> r = 0 \<and> w' = w \<or> r = - 1"
  by (induction es) (auto simp: Let_def split: if_splits option.splits)

lemma check_attributes_result:
  "check_attributes w m pi = Inr (r, w') \<Longrightarrow> r = 0 \<and> w' = w \<or> r = - 1"
  by (auto simp: check_attributes_def split: option.splits dest: check_entries_ok_same)

lemma check_attributes_total:
  assumes "expected_count w pi = Some n"
  shows "(count_mismatch w m pi \<and> (\<exists>w1. check_attributes w m pi = Inr (- 1, w1))) \<or>
         (\<not> count_mismatch w m pi \<and> check_attributes w m pi = Inr (0, w))"
proof (cases m)
  case None
  then show ?thesis by (simp add: count_mismatch_def check_attributes_def)
next
  case (Some es)
  show ?thesis
  proof (cases "find (\<lambda>(k, a). count (bufs w a) \<noteq> n) es")
    case None
    then have "\<not> count_mismatch w m pi"
      by (auto simp: count_mismatch_def Some assms find_None_iff)
    with None show ?thesis
      by (simp add: check_attributes_def Some check_entries_find [OF assms])
  next
    case (Some x)
    from find_SomeD [OF this] have "count_mismatch w m pi"
      by (auto simp: count_mismatch_def \<open>m = Some es\<close> assms)
    with Some show ?thesis
      by (auto simp: check_attributes_def \<open>m = Some es\<close> check_entries_find [OF assms]
            split: prod.splits)
  qed
qed

subsection \<open>The aggregation loops\<close>

lemma copy_attributes_ok:
  "\<forall>i < length es. 0 \<le> hmap_set_ret e (n + i) \<Longrightarrow>
   copy_attributes e n es m = (0, n + length es, foldl (\<lambda>m (k, a). AList.update k a m) m es)"
proof (induction es arbitrary: n m)
  case Nil
  then show ?case by simp
next
  case (Cons x es)
  obtain key anode where x: "x = (key, anode)" by (cases x)
  from Cons.prems have 0: "0 \<le> hmap_set_ret e n" by force
  from Cons.prems have "\<forall>i < length es. 0 \<le> hmap_set_ret e (Suc n + i)" by force
  from Cons.IH [OF this] 0 show ?case by (simp add: x ngli_hmap_set_def)
qed

lemma copy_attributes_neg_iff:
  "fst (copy_attributes e n es m) < 0 \<longleftrightarrow> (\<exists>i < length es. hmap_set_ret e (n + i) < 0)"
proof (induction es arbitrary: n m)
  case Nil
  then show ?case by simp
next
  case (Cons x es)
  obtain key anode where x: "x = (key, anode)" by (cases x)
  have ex: "(\<exists>i < length (x # es). hmap_set_ret e (n + i) < 0) \<longleftrightarrow>
            hmap_set_ret e n < 0 \<or> (\<exists>i < length es. hmap_set_ret e (Suc n + i) < 0)"
    by (auto simp: less_Suc_eq_0_disj)
  show ?case unfolding ex using Cons.IH [of "Suc n" "AList.update key anode m"]
    by (simp add: x ngli_hmap_set_def)
qed

lemma copy_attributes_append:
  "copy_attributes e n (xs @ ys) m =
     (case copy_attributes e n xs m of
        (r, n', m') \<Rightarrow> if r < 0 then (r, n', m') else copy_attributes e n' ys m')"
  by (induction xs arbitrary: n m) (auto split: prod.splits)

lemma copy_attributes_nonneg_zero:
  "copy_attributes e n es m = (r, n', m') \<Longrightarrow> 0 \<le> r \<Longrightarrow> r = 0"
  by (induction es arbitrary: n m) (auto split: prod.splits if_splits)

lemma set_const_attributes_copy:
  "set_const_attributes e g n cs m =
     (case copy_attributes e n (const_entries g cs) m of (ret, n', m') \<Rightarrow> (ret, m'))"
proof (induction cs arbitrary: n m)
  case Nil
  then show ?case by (simp add: const_entries_def List.map_filter_simps)
next
  case (Cons c cs)
  obtain name slot where c: "c = (name, slot)" by (cases c)
  show ?case
  proof (cases "slot g")
    case None
    then show ?thesis using Cons.IH [of n m]
      by (simp add: c const_entries_def List.map_filter_simps)
  next
    case (Some a)
    then show ?thesis using Cons.IH
      by (simp add: c const_entries_def List.map_filter_simps split: prod.splits)
  qed
qed

lemma init_attributes_copy:
  "hmap_create_ok e \<Longrightarrow>
   init_attributes e w =
     (case copy_attributes e 0 (user_attributes w @ const_entries (geometry w) attrib_const_map) []
      of (r, n, m) \<Rightarrow> Inr (r, set_pass_attributes (Some m) w))"
  by (auto simp: init_attributes_def copy_attributes_append set_const_attributes_copy
        user_attributes_def split: prod.splits dest: copy_attributes_nonneg_zero)

lemma init_attributes_total:
  "(\<exists>r w'. init_attributes e w = Inr (r, w') \<and> r < 0 \<and> (\<not> hmap_create_ok e \<or> hmap_set_fails e w)) \<or>
   (init_attributes e w = Inr (0, set_pass_attributes
       (Some (foldl (\<lambda>m (k, a). AList.update k a m) []
                (user_attributes w @ const_entries (geometry w) attrib_const_map))) w)
    \<and> hmap_create_ok e \<and> \<not> hmap_set_fails e w)"
proof (cases "hmap_create_ok e")
  case False
  then show ?thesis by (simp add: init_attributes_def)
next
  case True
  let ?es = "user_attributes w @ const_entries (geometry w) attrib_const_map"
  show ?thesis
  proof (cases "hmap_set_fails e w")
    case True
    then have "fst (copy_attributes e 0 ?es []) < 0"
      unfolding hmap_set_fails_def copy_attributes_neg_iff by auto
    with True \<open>hmap_create_ok e\<close> show ?thesis
      by (auto simp: init_attributes_copy split: prod.splits)
  next
    case False
    then have "\<forall>i < length ?es. 0 \<le> hmap_set_ret e (0 + i)"
      unfolding hmap_set_fails_def by (auto simp: not_less)
    from copy_attributes_ok [OF this] False \<open>hmap_create_ok e\<close> show ?thesis
      by (simp add: init_attributes_copy)
  qed
qed

lemma map_of_foldl_update:
  "map_of (foldl (\<lambda>m (k, a). AList.update k a m) m es) = map_of m ++ map_of (rev es)"
proof (induction es arbitrary: m)
  case Nil
  then show ?case by simp
next
  case (Cons x es)
  obtain k a where x: "x = (k, a)" by (cases x)
  show ?case
    by (simp add: x Cons.IH update_conv' map_add_upd_left fun_eq_iff map_add_def
          split: option.splits)
qed

lemma map_of_rev_distinct: "distinct (map fst es) \<Longrightarrow> map_of (rev es) = map_of es"
  by (subst map_of_inject_set) (simp_all add: rev_map [symmetric])

lemma map_of_insert_slot:
  "map_of (insert_slot name slot m) k =
     (if k = name \<and> slot \<noteq> None then slot else map_of m k)"
  by (auto simp: insert_slot_def update_conv' split: option.splits)

lemma foldl_const_entries:
  "foldl (\<lambda>m (k, a). AList.update k a m) m (const_entries g attrib_const_map) =
     insert_slot ''ngl_normal'' (normals_buffer g)
       (insert_slot ''ngl_uvcoord'' (uvcoords_buffer g)
          (insert_slot ''ngl_position'' (vertices_buffer g) m))"
  by (cases "vertices_buffer g"; cases "uvcoords_buffer g"; cases "normals_buffer g")
     (simp_all add: const_entries_def attrib_const_map_def List.map_filter_simps
        insert_slot_def)

lemma init_attributes_success:
  assumes "init_attributes e w = Inr (0, w')"
  shows "w' = set_pass_attributes
            (Some (spec_pass_attributes (user_attributes w) (geometry w))) w"
  using init_attributes_total [of e w] assms
  by (auto simp: spec_pass_attributes_def foldl_const_entries)

subsection \<open>The stages of init\<close>

lemma frame_refl: "frame w w"
  by (simp add: frame_def)

lemma frame_trans: "frame a b \<Longrightarrow> frame b c \<Longrightarrow> frame a c"
  by (simp add: frame_def)

lemma instancing_checks_result:
  "instancing_checks e w = Inr (r, w') \<Longrightarrow> r = 0 \<and> w' = w \<or> r = - 1"
  by (auto simp: instancing_checks_def split: if_splits)

lemma init_program_frame: "init_program e w = Inr (r, w') \<Longrightarrow> frame w w' \<and> r \<le> 0"
  by (auto simp: init_program_def frame_def emit_def Let_def split: if_splits option.splits)

lemma init_indices_frame: "init_indices e w = Inr (r, w') \<Longrightarrow> frame w w' \<and> r \<le> 0"
  by (auto simp: init_indices_def frame_def emit_def LOG_ERROR_def Let_def split: if_splits option.splits)

lemma init_attributes_frame: "init_attributes e w = Inr (r, w') \<Longrightarrow> frame w w' \<and> r \<le> 0"
  by (auto simp: init_attributes_def frame_def set_pass_attributes_def split: if_splits prod.splits)

lemma init_pass_frame: "init_pass e w = Inr (r, w') \<Longrightarrow> frame w w'"
  by (auto simp: init_pass_def frame_def emit_def Let_def)

lemma select_draw_frame: "select_draw w = Inr (r, w') \<Longrightarrow> frame w w' \<and> r = 0"
  by (auto simp: select_draw_def frame_def Let_def)

lemma init_program_fail:
  "program_error e w \<Longrightarrow> \<exists>r w1. init_program e w = Inr (r, w1) \<and> r < 0"
  by (auto simp: program_error_def init_program_def Let_def split: option.splits)

lemma init_program_ok:
  "\<not> program_error e w \<Longrightarrow> \<exists>w1. init_program e w = Inr (0, w1) \<and> frame w w1"
  by (auto simp: program_error_def init_program_def frame_def emit_def Let_def split: option.splits)

lemma init_program_ok_explicit:
  assumes "\<not> program_error e w"
  shows "\<exists>w3. init_program e w = Inr (0, w3) \<and>
     geometry w3 = geometry w \<and> bufs w3 = bufs w \<and>
     program (priv w3) \<noteq> None \<and>
     (program (priv w) = None \<longrightarrow> program (priv w3) = node_create e) \<and>
     pass_attributes (priv w3) = pass_attributes (priv w) \<and>
     draw (priv w3) = draw (priv w) \<and>
     trace w3 = trace w @ default_program_events e w"
  using assms
  by (auto simp: program_error_def init_program_def emit_def Let_def default_program_events_def
        split: option.splits)

lemma init_indices_fail:
  "indices_error e w \<Longrightarrow> \<exists>r w1. init_indices e w = Inr (r, w1) \<and> r < 0"
  by (auto simp: indices_error_def index_buffer_references_block_def init_indices_def
        emit_def Let_def split: option.splits)

lemma init_indices_ok:
  "\<not> indices_error e w \<Longrightarrow> \<exists>w1. init_indices e w = Inr (0, w1) \<and> frame w w1"
  by (auto simp: indices_error_def index_buffer_references_block_def init_indices_def
        frame_def emit_def Let_def split: option.splits)

lemma init_indices_block:
  assumes "indices_buffer (geometry w) = Some ib" and "0 \<le> buffer_ref_ret e"
    and "block (bufs w ib) \<noteq> None"
  shows "init_indices e w =
     Inr (- 1, w\<lparr>priv := (priv w)\<lparr>has_indices_buffer_ref := 1\<rparr>,
                 trace := trace w @
                   [Node_buffer_ref ib (buffer_ref_ret e),
                    Log_error ''geometry indices buffers referencing a block are not supported''
                      []]\<rparr>)"
  using assms by (simp add: init_indices_def Let_def emit_def LOG_ERROR_def)

lemma frame_indices_error: "frame w w' \<Longrightarrow> indices_error e w' = indices_error e w"
  by (auto simp: frame_def indices_error_def index_buffer_references_block_def)

lemma frame_hmap_set_fails: "frame w w' \<Longrightarrow> hmap_set_fails e w' = hmap_set_fails e w"
  by (simp add: frame_def hmap_set_fails_def user_attributes_def)

lemma init_attributes_fail:
  "\<not> hmap_create_ok e \<or> hmap_set_fails e w \<Longrightarrow>
     \<exists>r w1. init_attributes e w = Inr (r, w1) \<and> r < 0"
  using init_attributes_total [of e w] by auto

lemma init_attributes_ok:
  "hmap_create_ok e \<Longrightarrow> \<not> hmap_set_fails e w \<Longrightarrow>
     \<exists>w1. init_attributes e w = Inr (0, w1) \<and> frame w w1"
  using init_attributes_total [of e w] by (auto dest: init_attributes_frame)

subsection \<open>A successful init\<close>

lemma render_init_success_chain:
  assumes "render_init e w = Inr (0, w')"
  shows "\<exists>w3 w4 w5 w6 r.
     instancing_checks e w = Inr (0, w) \<and>
     check_attributes w (attributes (priv w)) 0 = Inr (0, w) \<and>
     check_attributes w (instance_attributes (priv w)) 1 = Inr (0, w) \<and>
     init_program e w = Inr (0, w3) \<and>
     init_indices e w3 = Inr (0, w4) \<and>
     init_attributes e w4 = Inr (0, w5) \<and>
     init_pass e w5 = Inr (r, w6) \<and> 0 \<le> r \<and>
     select_draw w6 = Inr (0, w')"
proof -
  from assms obtain r0 w0 where s0: "instancing_checks e w = Inr (r0, w0)" "0 \<le> r0"
    and k0: "and_then (check_attributes w0 (attributes (priv w0)) 0) (\<lambda>w.
     and_then (check_attributes w (instance_attributes (priv w)) 1) (\<lambda>w.
     and_then (init_program e w) (\<lambda>w.
     and_then (init_indices e w) (\<lambda>w.
     and_then (init_attributes e w) (\<lambda>w.
     and_then (init_pass e w) select_draw))))) = Inr (0, w')"
    unfolding render_init_def by (blast dest: and_then_success)
  from s0 have e0: "r0 = 0" "w0 = w" using instancing_checks_result by fastforce+
  from k0 obtain r1 w1 where s1: "check_attributes w0 (attributes (priv w0)) 0 = Inr (r1, w1)" "0 \<le> r1"
    and k1: "and_then (check_attributes w1 (instance_attributes (priv w1)) 1) (\<lambda>w.
     and_then (init_program e w) (\<lambda>w.
     and_then (init_indices e w) (\<lambda>w.
     and_then (init_attributes e w) (\<lambda>w.
     and_then (init_pass e w) select_draw)))) = Inr (0, w')"
    by (blast dest: and_then_success)
  from s1 have e1: "r1 = 0" "w1 = w0" using check_attributes_result by fastforce+
  from k1 obtain r2 w2 where s2: "check_attributes w1 (instance_attributes (priv w1)) 1 = Inr (r2, w2)" "0 \<le> r2"
    and k2: "and_then (init_program e w2) (\<lambda>w.
     and_then (init_indices e w) (\<lambda>w.
     and_then (init_attributes e w) (\<lambda>w.
     and_then (init_pass e w) select_draw))) = Inr (0, w')"
    by (blast dest: and_then_success)
  from s2 have e2: "r2 = 0" "w2 = w1" using check_attributes_result by fastforce+
  from k2 obtain r3 w3 where s3: "init_program e w2 = Inr (r3, w3)" "0 \<le> r3"
    and k3: "and_then (init_indices e w3) (\<lambda>w.
     and_then (init_attributes e w) (\<lambda>w.
     and_then (init_pass e w) select_draw)) = Inr (0, w')"
    by (blast dest: and_then_success)
  from s3 have e3: "r3 = 0" using init_program_frame by fastforce
  from k3 obtain r4 w4 where s4: "init_indices e w3 = Inr (r4, w4)" "0 \<le> r4"
    and k4: "and_then (init_attributes e w4) (\<lambda>w.
     and_then (init_pass e w) select_draw) = Inr (0, w')"
    by (blast dest: and_then_success)
  from s4 have e4: "r4 = 0" using init_indices_frame by fastforce
  from k4 obtain r5 w5 where s5: "init_attributes e w4 = Inr (r5, w5)" "0 \<le> r5"
    and k5: "and_then (init_pass e w5) select_draw = Inr (0, w')"
    by (blast dest: and_then_success)
  from s5 have e5: "r5 = 0" using init_attributes_frame by fastforce
  from k5 obtain r6 w6 where s6: "init_pass e w5 = Inr (r6, w6)" "0 \<le> r6"
    and k6: "select_draw w6 = Inr (0, w')"
    by (blast dest: and_then_success)
  show ?thesis using s0 s1 s2 s3 s4 s5 s6 k6 e0 e1 e2 e3 e4 e5 by auto
qed

lemma render_init_success_frame:
  assumes "render_init e w = Inr (0, w')"
  shows "frame w w'"
proof -
  from render_init_success_chain [OF assms] obtain w3 w4 w5 w6 r where
    "init_program e w = Inr (0, w3)" "init_indices e w3 = Inr (0, w4)"
    "init_attributes e w4 = Inr (0, w5)" "init_pass e w5 = Inr (r, w6)"
    "select_draw w6 = Inr (0, w')" by blast
  then show ?thesis
    by (meson frame_trans init_program_frame init_indices_frame init_attributes_frame
        init_pass_frame select_draw_frame)
qed

lemma render_init_draw:
  assumes "render_init e w = Inr (0, w')"
  shows "draw (priv w') =
     Some (if indices_buffer (geometry w) \<noteq> None
           then (if nb_instances (priv w) > 0 then Draw_elements_instanced else Draw_elements)
           else (if nb_instances (priv w) > 0 then Draw_arrays_instanced else Draw_arrays))"
proof -
  from render_init_success_chain [OF assms] obtain w3 w4 w5 w6 r where
    c: "init_program e w = Inr (0, w3)" "init_indices e w3 = Inr (0, w4)"
    "init_attributes e w4 = Inr (0, w5)" "init_pass e w5 = Inr (r, w6)"
    and s: "select_draw w6 = Inr (0, w')" by blast
  from c have "frame w w6"
    by (meson frame_trans init_program_frame init_indices_frame init_attributes_frame
        init_pass_frame)
  with s show ?thesis by (auto simp: select_draw_def frame_def Let_def)
qed

lemma render_init_pass_attributes:
  assumes "render_init e w = Inr (0, w')"
  shows "pass_attributes (priv w') =
           Some (spec_pass_attributes (user_attributes w) (geometry w))"
proof -
  from render_init_success_chain [OF assms] obtain w3 w4 w5 w6 r where
    c: "init_program e w = Inr (0, w3)" "init_indices e w3 = Inr (0, w4)"
    and a: "init_attributes e w4 = Inr (0, w5)"
    and p: "init_pass e w5 = Inr (r, w6)" and s: "select_draw w6 = Inr (0, w')" by blast
  from c have f: "frame w w4" by (meson frame_trans init_program_frame init_indices_frame)
  from p s have "pass_attributes (priv w') = pass_attributes (priv w5)"
    by (auto simp: init_pass_def select_draw_def emit_def Let_def)
  also from init_attributes_success [OF a] have "\<dots> =
      Some (spec_pass_attributes (user_attributes w4) (geometry w4))"
    by (simp add: set_pass_attributes_def)
  also from f have "\<dots> = Some (spec_pass_attributes (user_attributes w) (geometry w))"
    by (simp add: frame_def user_attributes_def)
  finally show ?thesis .
qed

lemma render_init_indices_type:
  assumes "render_init e w = Inr (0, w')" and "indices_buffer (geometry w) = Some ib"
  shows "indices_type (priv w') = format_get_gl_type e (data_format (bufs w ib))"
proof -
  from render_init_success_chain [OF assms(1)] obtain w3 w4 w5 w6 r where
    c: "init_program e w = Inr (0, w3)" and i: "init_indices e w3 = Inr (0, w4)"
    and a: "init_attributes e w4 = Inr (0, w5)"
    and p: "init_pass e w5 = Inr (r, w6)" and s: "select_draw w6 = Inr (0, w')" by blast
  from c have f: "frame w w3" by (auto dest: init_program_frame)
  from a p s have "indices_type (priv w') = indices_type (priv w4)"
    by (auto simp: init_attributes_def set_pass_attributes_def init_pass_def select_draw_def
          emit_def Let_def split: if_splits prod.splits)
  also from i f assms(2) have "\<dots> = format_get_gl_type e (data_format (bufs w ib))"
    by (auto simp: init_indices_def frame_def emit_def LOG_ERROR_def Let_def
          split: if_splits option.splits)
  finally show ?thesis .
qed

subsection \<open>Every outcome of init\<close>

lemma failure_condition_unfold:
  "init_failure_condition e w \<longleftrightarrow>
     (nb_instances (priv w) \<noteq> 0 \<and> NGLI_FEATURE_DRAW_INSTANCED \<notin> features e) \<or>
     (instance_attributes (priv w) \<noteq> None \<and> NGLI_FEATURE_INSTANCED_ARRAY \<notin> features e) \<or>
     count_mismatch w (attributes (priv w)) 0 \<or>
     count_mismatch w (instance_attributes (priv w)) 1 \<or>
     program_error e w \<or> indices_error e w \<or> \<not> hmap_create_ok e \<or> hmap_set_fails e w \<or>
     pass_init_ret e < 0"
  by (auto simp: init_failure_condition_def resource_error_def program_error_def
        indices_error_def index_buffer_references_block_def split: option.splits)

lemma render_init_total:
  assumes vb: "vertices_buffer (geometry w) \<noteq> None"
  shows "\<exists>r w'. render_init e w = Inr (r, w') \<and> r \<le> 0 \<and> (r < 0 \<longleftrightarrow> init_failure_condition e w)"
proof -
  let ?k1 = "\<lambda>w. and_then (check_attributes w (instance_attributes (priv w)) 1) (\<lambda>w.
     and_then (init_program e w) (\<lambda>w.
     and_then (init_indices e w) (\<lambda>w.
     and_then (init_attributes e w) (\<lambda>w.
     and_then (init_pass e w) select_draw))))"
  let ?k2 = "\<lambda>w. and_then (init_program e w) (\<lambda>w.
     and_then (init_indices e w) (\<lambda>w.
     and_then (init_attributes e w) (\<lambda>w.
     and_then (init_pass e w) select_draw)))"
  let ?k3 = "\<lambda>w. and_then (init_indices e w) (\<lambda>w.
     and_then (init_attributes e w) (\<lambda>w.
     and_then (init_pass e w) select_draw))"
  let ?k4 = "\<lambda>w. and_then (init_attributes e w) (\<lambda>w.
     and_then (init_pass e w) select_draw)"
  let ?k5 = "\<lambda>w. and_then (init_pass e w) select_draw"
  let ?F = "init_failure_condition e w"
  note F = failure_condition_unfold
  from vb obtain n0 where n0: "expected_count w 0 = Some n0"
    by (auto simp: expected_count_def)
  have n1: "expected_count w 1 = Some (nb_instances (priv w))"
    by (simp add: expected_count_def)
  show ?thesis
  proof (cases "(nb_instances (priv w) \<noteq> 0 \<and> NGLI_FEATURE_DRAW_INSTANCED \<notin> features e) \<or>
     (instance_attributes (priv w) \<noteq> None \<and> NGLI_FEATURE_INSTANCED_ARRAY \<notin> features e)")
    case True
    then have ?F unfolding F by blast
    moreover from True have "\<exists>w'. render_init e w = Inr (- 1, w')"
      by (auto simp: render_init_def instancing_checks_def and_then_def)
    ultimately show ?thesis by auto
  next
    case c0: False
    then have r0: "render_init e w = and_then (check_attributes w (attributes (priv w)) 0) ?k1"
      by (auto simp: render_init_def instancing_checks_def and_then_def)
    show ?thesis
    proof (cases "count_mismatch w (attributes (priv w)) 0")
      case True
      with check_attributes_total [OF n0, of "attributes (priv w)"]
      obtain w1 where "check_attributes w (attributes (priv w)) 0 = Inr (- 1, w1)" by auto
      then have "render_init e w = Inr (- 1, w1)" by (simp add: r0 and_then_def)
      moreover from True have ?F unfolding F by blast
      ultimately show ?thesis by auto
    next
      case c1: False
      with check_attributes_total [OF n0, of "attributes (priv w)"]
      have "check_attributes w (attributes (priv w)) 0 = Inr (0, w)" by auto
      then have r1: "render_init e w = ?k1 w" by (simp add: r0 and_then_def)
      show ?thesis
      proof (cases "count_mismatch w (instance_attributes (priv w)) 1")
        case True
        with check_attributes_total [OF n1, of "instance_attributes (priv w)"]
        obtain w1 where "check_attributes w (instance_attributes (priv w)) 1 = Inr (- 1, w1)" by auto
        then have "render_init e w = Inr (- 1, w1)" by (simp add: r1 and_then_def)
        moreover from True have ?F unfolding F by blast
        ultimately show ?thesis by auto
      next
        case c2: False
        with check_attributes_total [OF n1, of "instance_attributes (priv w)"]
        have "check_attributes w (instance_attributes (priv w)) 1 = Inr (0, w)" by auto
        then have r2: "render_init e w = ?k2 w" by (simp add: r1 and_then_def)
        show ?thesis
        proof (cases "program_error e w")
          case True
          from init_program_fail [OF this] obtain r w1
            where "init_program e w = Inr (r, w1)" "r < 0" by blast
          then have "render_init e w = Inr (r, w1)" by (simp add: r2 and_then_def)
          moreover from True have ?F unfolding F by blast
          ultimately show ?thesis using \<open>r < 0\<close> by auto
        next
          case c3: False
          from init_program_ok [OF this] obtain w3
            where s3: "init_program e w = Inr (0, w3)" and f3: "frame w w3" by blast
          then have r3: "render_init e w = ?k3 w3" by (simp add: r2 and_then_def)
          show ?thesis
          proof (cases "indices_error e w3")
            case True
            from init_indices_fail [OF this] obtain r w1
              where "init_indices e w3 = Inr (r, w1)" "r < 0" by blast
            then have "render_init e w = Inr (r, w1)" by (simp add: r3 and_then_def)
            moreover from True have ?F unfolding F frame_indices_error [OF f3] by blast
            ultimately show ?thesis using \<open>r < 0\<close> by auto
          next
            case c4: False
            from init_indices_ok [OF this] obtain w4
              where s4: "init_indices e w3 = Inr (0, w4)" and f4: "frame w3 w4" by blast
            then have r4: "render_init e w = ?k4 w4" by (simp add: r3 and_then_def)
            have f04: "frame w w4" using f3 f4 by (rule frame_trans)
            show ?thesis
            proof (cases "\<not> hmap_create_ok e \<or> hmap_set_fails e w4")
              case True
              from init_attributes_fail [OF this] obtain r w1
                where "init_attributes e w4 = Inr (r, w1)" "r < 0" by blast
              then have "render_init e w = Inr (r, w1)" by (simp add: r4 and_then_def)
              moreover from True have ?F unfolding F frame_hmap_set_fails [OF f04] by blast
              ultimately show ?thesis using \<open>r < 0\<close> by auto
            next
              case c5: False
              then have "hmap_create_ok e" "\<not> hmap_set_fails e w4" by auto
              from init_attributes_ok [OF this] obtain w5
                where s5: "init_attributes e w4 = Inr (0, w5)" by blast
              then have r5: "render_init e w = ?k5 w5" by (simp add: r4 and_then_def)
              show ?thesis
              proof (cases "pass_init_ret e < 0")
                case True
                then have "\<exists>w'. render_init e w = Inr (pass_init_ret e, w')"
                  by (simp add: r5 and_then_def init_pass_def Let_def)
                moreover from True have ?F unfolding F by blast
                ultimately show ?thesis using True by auto
              next
                case False
                then have "\<exists>w'. render_init e w = Inr (0, w')"
                  by (simp add: r5 and_then_def init_pass_def select_draw_def Let_def)
                moreover from False c0 c1 c2 c3 c4 c5 have "\<not> ?F"
                  unfolding F frame_indices_error [OF f3] frame_hmap_set_fails [OF f04] by blast
                ultimately show ?thesis by auto
              qed
            qed
          qed
        qed
      qed
    qed
  qed
qed

subsection \<open>Drawing\<close>

lemma call_draw_priv: "call_draw d e w = Inr w' \<Longrightarrow> priv w' = priv w"
  by (cases d) (auto simp: draw_elements_def draw_elements_instanced_def draw_arrays_def
        draw_arrays_instanced_def emit_def Let_def split: option.splits)

lemma render_draw_keeps_draw: "render_draw e w = Inr w' \<Longrightarrow> draw (priv w') = draw (priv w)"
  by (auto simp: render_draw_def emit_def LOG_ERROR_def Let_def
        split: option.splits sum.splits if_splits dest!: call_draw_priv)

lemma render_update_keeps_draw: "draw (priv (snd (render_update e w))) = draw (priv w)"
  by (simp add: render_update_def emit_def Let_def)

lemma render_uninit_keeps_draw: "draw (priv (render_uninit w)) = draw (priv w)"
  by (simp add: render_uninit_def emit_def set_pass_attributes_def Let_def)

lemma run_calls_keeps_draw: "run_calls cs w = Inr w' \<Longrightarrow> draw (priv w') = draw (priv w)"
proof (induction cs w rule: run_calls.induct)
  case (1 w)
  then show ?case by simp
next
  case (2 e cs w)
  then show ?case by (simp add: render_update_keeps_draw)
next
  case (3 e cs w)
  then show ?case by (auto split: sum.splits dest: render_draw_keeps_draw)
next
  case (4 cs w)
  then show ?case by (simp add: render_uninit_keeps_draw)
qed

lemma emit_emit: "emit ys (emit xs w) = emit (xs @ ys) w"
  by (simp add: emit_def)

lemma render_draw_alt:
  "render_draw e w =
     (case draw (priv w) of
        None \<Rightarrow> Inl Null_deref
      | Some d \<Rightarrow>
          (case call_draw d e (emit (bind_events e) w) of
             Inl f \<Rightarrow> Inl f
           | Inr w3 \<Rightarrow> Inr (emit (unbind_events e) w3)))"
  by (cases "pass_bind_ret e < 0"; cases "pass_unbind_ret e < 0")
     (simp_all add: render_draw_def bind_events_def unbind_events_def LOG_ERROR_def
        emit_def Let_def split: option.splits sum.splits)

lemma render_draw_events:
  assumes d: "draw (priv w) = Some d"
    and c: "\<And>w1. geometry w1 = geometry w \<Longrightarrow> bufs w1 = bufs w \<Longrightarrow> priv w1 = priv w
              \<Longrightarrow> call_draw d e w1 = Inr (emit evs w1)"
  shows "render_draw e w = Inr (emit (bind_events e @ evs @ unbind_events e) w)"
proof -
  let ?wb = "emit (bind_events e) w"
  have b: "geometry ?wb = geometry w" "bufs ?wb = bufs w" "priv ?wb = priv w"
    by (simp_all add: emit_def)
  have "call_draw d e ?wb = Inr (emit evs ?wb)" by (rule c [OF b])
  then show ?thesis using d by (simp add: render_draw_alt emit_emit)
qed

lemma call_draw_table:
  assumes "d = (if has_indices
                then (if nb_instances (priv w) > 0 then Draw_elements_instanced else Draw_elements)
                else (if nb_instances (priv w) > 0 then Draw_arrays_instanced else Draw_arrays))"
    and "has_indices \<longrightarrow> indices_buffer (geometry w) = Some a"
    and "\<not> has_indices \<longrightarrow> vertices_buffer (geometry w) = Some a"
  shows "call_draw d e w =
     Inr (emit (table_draw_events has_indices (nb_instances (priv w))
                  (topology_get_gl_topology e (topology (geometry w)))
                  (count (bufs w a)) (indices_type (priv w)) (buffer_id (bufs w a))) w)"
  using assms
  by (auto simp: table_draw_events_def draw_elements_def draw_elements_instanced_def
        draw_arrays_def draw_arrays_instanced_def Let_def)

lemma table_draw_events_one:
  "length (filter is_draw_call (table_draw_events h nb t c ty i)) = 1"
  by (simp add: table_draw_events_def)

lemma render_draw_after_init:
  assumes i: "render_init e w = Inr (0, w')"
    and a: "indices_buffer (geometry w) \<noteq> None \<longrightarrow> indices_buffer g = Some a"
           "indices_buffer (geometry w) = None \<longrightarrow> vertices_buffer g = Some a"
  shows "render_draw e' (w'\<lparr>geometry := g, bufs := b\<rparr>) =
     Inr (emit (bind_events e' @
                table_draw_events (indices_buffer (geometry w) \<noteq> None) (nb_instances (priv w))
                  (topology_get_gl_topology e' (topology g)) (count (b a))
                  (indices_type (priv w')) (buffer_id (b a)) @
                unbind_events e') (w'\<lparr>geometry := g, bufs := b\<rparr>))"
proof -
  let ?w2 = "w'\<lparr>geometry := g, bufs := b\<rparr>"
  let ?h = "indices_buffer (geometry w) \<noteq> None"
  let ?d = "if ?h then (if nb_instances (priv w) > 0 then Draw_elements_instanced else Draw_elements)
            else (if nb_instances (priv w) > 0 then Draw_arrays_instanced else Draw_arrays)"
  from render_init_success_frame [OF i] have n: "nb_instances (priv w') = nb_instances (priv w)"
    by (simp add: frame_def)
  from render_init_draw [OF i] have d: "draw (priv ?w2) = Some ?d" by simp
  show ?thesis
  proof (rule render_draw_events [OF d])
    fix w1 :: world
    assume g: "geometry w1 = geometry ?w2" "bufs w1 = bufs ?w2" "priv w1 = priv ?w2"
    then have e1: "priv w1 = priv w'" "geometry w1 = g" "bufs w1 = b" by simp_all
    have p: "?h \<longrightarrow> indices_buffer (geometry w1) = Some a"
      "\<not> ?h \<longrightarrow> vertices_buffer (geometry w1) = Some a"
      using a e1 by auto
    note t = call_draw_table [where has_indices = ?h and w = w1 and a = a and e = e',
        OF refl p]
    from t show "call_draw ?d e' w1 =
      Inr (emit (table_draw_events ?h (nb_instances (priv w))
                  (topology_get_gl_topology e' (topology g)) (count (b a))
                  (indices_type (priv w')) (buffer_id (b a))) w1)"
      unfolding e1 n .
  qed
qed

subsection \<open>The index buffer reference\<close>

lemma acquired_append: "acquired (xs @ ys) = acquired xs @ acquired ys"
  by (induction xs rule: acquired.induct) auto

lemma released_append: "released (xs @ ys) = released xs @ released ys"
  by (induction xs rule: released.induct) auto

lemma new_events_append: "trace w' = trace w @ evs \<Longrightarrow> new_events w w' = evs"
  by (simp add: new_events_def)

lemma default_program_events_quiet:
  "acquired (default_program_events e w) = []" "released (default_program_events e w) = []"
  by (auto simp: default_program_events_def split: option.splits)

lemma quiet_refl: "quiet w w"
  by (simp add: quiet_def)

lemma quiet_trans: "quiet a b \<Longrightarrow> quiet b c \<Longrightarrow> quiet a c"
  unfolding quiet_def
  by (elim conjE exE, intro conjI, simp, simp, rule_tac x = "evs @ evsa" in exI)
     (simp add: acquired_append released_append)

lemma quiet_emit: "acquired evs = [] \<Longrightarrow> released evs = [] \<Longrightarrow> quiet w (emit evs w)"
  by (auto simp: quiet_def emit_def)

lemma instancing_checks_quiet: "instancing_checks e w = Inr (r, w') \<Longrightarrow> quiet w w'"
  by (auto simp: instancing_checks_def LOG_ERROR_def quiet_refl
        intro!: quiet_emit split: if_splits)

lemma check_entries_quiet: "check_entries w es pi = Inr (r, w') \<Longrightarrow> quiet w w'"
  by (induction es)
     (auto simp: LOG_ERROR_def quiet_refl Let_def intro!: quiet_emit
        split: if_splits option.splits)

lemma check_attributes_quiet: "check_attributes w m pi = Inr (r, w') \<Longrightarrow> quiet w w'"
  by (auto simp: check_attributes_def quiet_refl split: option.splits
        dest: check_entries_quiet)

lemma init_program_quiet: "init_program e w = Inr (r, w') \<Longrightarrow> quiet w w'"
  by (auto simp: init_program_def quiet_def emit_def Let_def
        split: if_splits option.splits)

lemma init_attributes_quiet: "init_attributes e w = Inr (r, w') \<Longrightarrow> quiet w w'"
  by (auto simp: init_attributes_def quiet_def set_pass_attributes_def
        split: if_splits prod.splits)

lemma init_pass_quiet: "init_pass e w = Inr (r, w') \<Longrightarrow> quiet w w'"
  by (auto simp: init_pass_def quiet_def emit_def Let_def)

lemma select_draw_quiet: "select_draw w = Inr (r, w') \<Longrightarrow> quiet w w'"
  by (auto simp: select_draw_def quiet_def Let_def)

lemma init_tail_quiet:
  assumes "and_then (init_attributes e w) (\<lambda>w. and_then (init_pass e w) select_draw)
             = Inr (r, w')"
  shows "quiet w w'"
proof -
  from and_then_cases [where f = "init_attributes e" and Q = quiet, OF assms
      init_attributes_quiet]
  have "quiet w w' \<or> (\<exists>w1. quiet w w1 \<and> and_then (init_pass e w1) select_draw = Inr (r, w'))" .
  moreover {
    fix w1 assume a: "quiet w w1" and b: "and_then (init_pass e w1) select_draw = Inr (r, w')"
    from and_then_cases [where f = "init_pass e" and Q = quiet, OF b init_pass_quiet]
    have "quiet w1 w' \<or> (\<exists>w2. quiet w1 w2 \<and> select_draw w2 = Inr (r, w'))" .
    with a have "quiet w w'" by (blast intro: quiet_trans select_draw_quiet)
  }
  ultimately show ?thesis by blast
qed

lemma render_init_split:
  assumes "render_init e w = Inr (r, w')"
  shows "quiet w w' \<or>
         (\<exists>w3 r4 w4. quiet w w3 \<and> init_indices e w3 = Inr (r4, w4) \<and> quiet w4 w')"
proof -
  let ?k4 = "\<lambda>w. and_then (init_attributes e w) (\<lambda>w. and_then (init_pass e w) select_draw)"
  let ?k3 = "\<lambda>w. and_then (init_indices e w) ?k4"
  let ?k2 = "\<lambda>w. and_then (init_program e w) ?k3"
  let ?k1 = "\<lambda>w. and_then (check_attributes w (instance_attributes (priv w)) 1) ?k2"
  let ?k0 = "\<lambda>w. and_then (check_attributes w (attributes (priv w)) 0) ?k1"
  let ?T = "\<lambda>w0. quiet w0 w' \<or>
         (\<exists>w3 r4 w4. quiet w0 w3 \<and> init_indices e w3 = Inr (r4, w4) \<and> quiet w4 w')"
  have s3: "?T w0" if "?k3 w0 = Inr (r, w')" for w0
  proof -
    from and_then_Inr [OF that]
    show ?thesis
    proof (elim disjE exE conjE)
      assume "init_indices e w0 = Inr (r, w')"
      then show ?thesis using quiet_refl by blast
    next
      fix r1 w1 assume "init_indices e w0 = Inr (r1, w1)" "?k4 w1 = Inr (r, w')"
      then show ?thesis using init_tail_quiet quiet_refl by blast
    qed
  qed
  have lift: "?T a" if "quiet a b" "?T b" for a b
    using that by (blast intro: quiet_trans)
  have s2: "?T w0" if "?k2 w0 = Inr (r, w')" for w0
  proof -
    from and_then_cases [where f = "init_program e" and Q = quiet, OF that init_program_quiet]
    have "quiet w0 w' \<or> (\<exists>w1. quiet w0 w1 \<and> ?k3 w1 = Inr (r, w'))" .
    then show ?thesis using s3 lift by (elim disjE exE conjE) (simp, meson)
  qed
  have s1: "?T w0" if "?k1 w0 = Inr (r, w')" for w0
  proof -
    from and_then_cases [where f = "\<lambda>w. check_attributes w (instance_attributes (priv w)) 1"
        and Q = quiet, OF that check_attributes_quiet]
    have "quiet w0 w' \<or> (\<exists>w1. quiet w0 w1 \<and> ?k2 w1 = Inr (r, w'))" .
    then show ?thesis using s2 lift by (elim disjE exE conjE) (simp, meson)
  qed
  have s0: "?T w0" if "?k0 w0 = Inr (r, w')" for w0
  proof -
    from and_then_cases [where f = "\<lambda>w. check_attributes w (attributes (priv w)) 0"
        and Q = quiet, OF that check_attributes_quiet]
    have "quiet w0 w' \<or> (\<exists>w1. quiet w0 w1 \<and> ?k1 w1 = Inr (r, w'))" .
    then show ?thesis using s1 lift by (elim disjE exE conjE) (simp, meson)
  qed
  from assms have "and_then (instancing_checks e w) ?k0 = Inr (r, w')"
    by (simp add: render_init_def)
  from and_then_cases [where f = "instancing_checks e" and Q = quiet, OF this
      instancing_checks_quiet]
  have "quiet w w' \<or> (\<exists>w1. quiet w w1 \<and> ?k0 w1 = Inr (r, w'))" .
  then show ?thesis using s0 lift by (elim disjE exE conjE) (simp, meson)
qed

lemma init_indices_effect:
  assumes "init_indices e w = Inr (r, w')"
  shows "geometry w' = geometry w \<and>
     (\<exists>evs. trace w' = trace w @ evs \<and> released evs = [] \<and>
        ((has_indices_buffer_ref (priv w') = has_indices_buffer_ref (priv w) \<and> acquired evs = []) \<or>
         (has_indices_buffer_ref (priv w') = 1 \<and>
          (\<exists>ib. indices_buffer (geometry w) = Some ib \<and> acquired evs = [ib]))))"
proof (cases "indices_buffer (geometry w)")
  case None
  with assms show ?thesis by (simp add: init_indices_def)
next
  case (Some ib)
  show ?thesis
  proof (cases "buffer_ref_ret e < 0")
    case True
    with assms Some have "w' = emit [Node_buffer_ref ib (buffer_ref_ret e)] w"
      by (auto simp: init_indices_def Let_def)
    with True show ?thesis by (simp add: emit_def)
  next
    case False
    with assms Some have "has_indices_buffer_ref (priv w') = 1" "geometry w' = geometry w"
      "trace w' = trace w @ [Node_buffer_ref ib (buffer_ref_ret e)] \<or>
       trace w' = trace w @ [Node_buffer_ref ib (buffer_ref_ret e),
          Log_error ''geometry indices buffers referencing a block are not supported'' []]"
      by (auto simp: init_indices_def Let_def emit_def LOG_ERROR_def split: if_splits)
    with False Some show ?thesis by auto
  qed
qed

lemma render_init_ref_outcome:
  assumes "render_init e w = Inr (r, w')"
  shows "geometry w' = geometry w \<and>
     (\<exists>evs. trace w' = trace w @ evs \<and> released evs = [] \<and>
        ((has_indices_buffer_ref (priv w') = has_indices_buffer_ref (priv w) \<and> acquired evs = []) \<or>
         (has_indices_buffer_ref (priv w') = 1 \<and>
          (\<exists>ib. indices_buffer (geometry w) = Some ib \<and> acquired evs = [ib]))))"
proof -
  from render_init_split [OF assms] show ?thesis
  proof (elim disjE exE conjE)
    assume "quiet w w'"
    then show ?thesis unfolding quiet_def by blast
  next
    fix w3 r4 w4
    assume q1: "quiet w w3" and i: "init_indices e w3 = Inr (r4, w4)" and q2: "quiet w4 w'"
    from q1 obtain xs where x: "geometry w3 = geometry w"
      "has_indices_buffer_ref (priv w3) = has_indices_buffer_ref (priv w)"
      "trace w3 = trace w @ xs" "acquired xs = []" "released xs = []"
      unfolding quiet_def by blast
    from q2 obtain zs where z: "geometry w' = geometry w4"
      "has_indices_buffer_ref (priv w') = has_indices_buffer_ref (priv w4)"
      "trace w' = trace w4 @ zs" "acquired zs = []" "released zs = []"
      unfolding quiet_def by blast
    from init_indices_effect [OF i] obtain ys where y: "geometry w4 = geometry w3"
      "trace w4 = trace w3 @ ys" "released ys = []"
      "(has_indices_buffer_ref (priv w4) = has_indices_buffer_ref (priv w3) \<and> acquired ys = []) \<or>
         (has_indices_buffer_ref (priv w4) = 1 \<and>
          (\<exists>ib. indices_buffer (geometry w3) = Some ib \<and> acquired ys = [ib]))"
      by blast
    have t: "trace w' = trace w @ (xs @ ys @ zs)" using x y z by simp
    have r: "released (xs @ ys @ zs) = []" using x y z by (simp add: released_append)
    have a: "acquired (xs @ ys @ zs) = acquired ys" using x z by (simp add: acquired_append)
    from y(4) x(1,2) z(2) a
    have "(has_indices_buffer_ref (priv w') = has_indices_buffer_ref (priv w) \<and>
            acquired (xs @ ys @ zs) = []) \<or>
         (has_indices_buffer_ref (priv w') = 1 \<and>
          (\<exists>ib. indices_buffer (geometry w) = Some ib \<and> acquired (xs @ ys @ zs) = [ib]))"
      by auto
    with t r x(1) y(1) z(1) show ?thesis by (intro conjI exI [where x = "xs @ ys @ zs"]) simp_all
  qed
qed

lemma render_init_success_flag:
  assumes "render_init e w = Inr (0, w')"
  shows "has_indices_buffer_ref (priv w') =
     (if indices_buffer (geometry w) \<noteq> None then 1 else has_indices_buffer_ref (priv w))"
proof -
  from render_init_success_chain [OF assms] obtain w3 w4 w5 w6 r where
    c: "init_program e w = Inr (0, w3)" and i: "init_indices e w3 = Inr (0, w4)"
    and a: "init_attributes e w4 = Inr (0, w5)"
    and p: "init_pass e w5 = Inr (r, w6)" and s: "select_draw w6 = Inr (0, w')" by blast
  from a p s have "quiet w4 w'"
    by (meson quiet_trans init_attributes_quiet init_pass_quiet select_draw_quiet)
  then have 1: "has_indices_buffer_ref (priv w') = has_indices_buffer_ref (priv w4)"
    by (simp add: quiet_def)
  from init_program_quiet [OF c] have 2: "geometry w3 = geometry w"
    "has_indices_buffer_ref (priv w3) = has_indices_buffer_ref (priv w)"
    by (simp_all add: quiet_def)
  from i have "has_indices_buffer_ref (priv w4) =
     (if indices_buffer (geometry w3) \<noteq> None then 1 else has_indices_buffer_ref (priv w3))"
    by (auto simp: init_indices_def Let_def emit_def LOG_ERROR_def
          split: option.splits if_splits)
  with 1 2 show ?thesis by simp
qed

lemma render_uninit_released:
  "released (new_events w (render_uninit w)) =
     (if has_indices_buffer_ref (priv w) \<noteq> 0 then [indices_buffer (geometry w)] else [])"
  by (simp add: render_uninit_def new_events_def emit_def set_pass_attributes_def Let_def)

subsection \<open>Evaluating the example scenes\<close>

lemmas demo_defs = demo_bufs_def demo_env_def demo_render_def demo_geometry_def demo_world_def

lemmas model_defs = render_init_def and_then_def instancing_checks_def check_attributes_def
  init_program_def init_indices_def init_attributes_def init_pass_def select_draw_def
  emit_def LOG_ERROR_def set_pass_attributes_def ngli_hmap_set_def attrib_const_map_def
  render_draw_def render_uninit_def render_update_def draw_elements_def
  draw_elements_instanced_def draw_arrays_def draw_arrays_instanced_def

lemmas spec_defs = table_draw_events_def bind_events_def unbind_events_def

lemmas eval_defs = initialized_def model_defs demo_defs demo_instanced_def demo_unindexed_def
  Let_def

section \<open>The claims\<close>

text \<open>
  Claim C1, amended. For a geometry with a vertex buffer, \<open>render_init\<close> returns, and it
  returns a failure if and only if: \<open>nb_instances\<close> is not zero (negative included) and
  the context lacks instanced draws; or the \<open>instance_attributes\<close> map is present (even
  empty) and the context lacks instanced arrays; or a buffer of \<open>attributes\<close> differs in
  count from the vertex buffer, or one of \<open>instance_attributes\<close> from \<open>nb_instances\<close>; or
  the index buffer references a block; or a resource error occurs.
\<close>

theorem render_init_fails_iff:
  assumes "vertices_buffer (geometry w) \<noteq> None"
  shows "\<exists>r w'. render_init e w = Inr (r, w') \<and> (r < 0 \<longleftrightarrow> init_failure_condition e w)"
  using render_init_total [OF assms, of e] by blast

theorem render_init_fails_iff_witness:
  "vertices_buffer (geometry demo_world) \<noteq> None \<and>
   \<not> init_failure_condition demo_env demo_world \<and>
   (\<exists>w'. render_init demo_env demo_world = Inr (0, w')) \<and>
   init_failure_condition demo_env
     (demo_world\<lparr>priv := demo_render\<lparr>attributes := Some [(''color'', 34), (''tint'', 35)]\<rparr>\<rparr>) \<and>
   (\<exists>r w'. render_init demo_env
      (demo_world\<lparr>priv := demo_render\<lparr>attributes := Some [(''color'', 34), (''tint'', 35)]\<rparr>\<rparr>)
       = Inr (r, w') \<and> r < 0)"
proof -
  let ?w = "demo_world\<lparr>priv := demo_render\<lparr>attributes := Some [(''color'', 34), (''tint'', 35)]\<rparr>\<rparr>"
  have v: "vertices_buffer (geometry demo_world) \<noteq> None" by (simp add: eval_defs)
  have v': "vertices_buffer (geometry ?w) \<noteq> None" by (simp add: eval_defs)
  have a: "\<not> init_failure_condition demo_env demo_world"
    by (simp add: init_failure_condition_def count_mismatch_def expected_count_def
          resource_error_def program_error_def hmap_set_fails_def
          index_buffer_references_block_def eval_defs)
  have b: "init_failure_condition demo_env ?w"
    by (simp add: init_failure_condition_def count_mismatch_def expected_count_def eval_defs)
  have c: "render_init demo_env demo_world = Inr (0, initialized demo_env demo_world)"
    by (simp add: eval_defs)
  from render_init_fails_iff [OF v, of demo_env] a c
  have "\<exists>w'. render_init demo_env demo_world = Inr (0, w')" by blast
  moreover from render_init_fails_iff [OF v', of demo_env] b
  have "\<exists>r w'. render_init demo_env ?w = Inr (r, w') \<and> r < 0" by blast
  ultimately show ?thesis using v a b by blast
qed

text \<open>
  Claim C1 as stated fails: with \<open>nb_instances = -1\<close> and a context without instanced
  draws init fails, although none of the stated conditions holds.
\<close>

theorem render_init_claimed_iff_counterexample:
  "render_init (demo_env\<lparr>features := {}\<rparr>)
       (demo_world\<lparr>priv := demo_render\<lparr>nb_instances := - 1\<rparr>\<rparr>) =
     Inr (- 1, LOG_ERROR ''context does not support instanced draws'' []
                 (demo_world\<lparr>priv := demo_render\<lparr>nb_instances := - 1\<rparr>\<rparr>)) \<and>
   \<not> claimed_init_failure_condition (demo_env\<lparr>features := {}\<rparr>)
       (demo_world\<lparr>priv := demo_render\<lparr>nb_instances := - 1\<rparr>\<rparr>)"
  by (simp add: claimed_init_failure_condition_def count_mismatch_def expected_count_def
        resource_error_def program_error_def hmap_set_fails_def
          index_buffer_references_block_def eval_defs)

text \<open>
  Claim C2. After a successful init the draw procedure is the one the decision table
  gives for (the geometry has an index buffer) and (\<open>nb_instances > 0\<close>), and no later
  sequence of update, draw and uninit calls changes it.
\<close>

theorem draw_procedure_decision_table:
  assumes "render_init e w = Inr (0, w')"
  shows "draw (priv w') =
           Some (decision_table (indices_buffer (geometry w) \<noteq> None)
                   (nb_instances (priv w) > 0)) \<and>
         (indices_buffer (geometry w) \<noteq> None \<and> nb_instances (priv w) = 0
            \<longrightarrow> draw (priv w') = Some Draw_elements) \<and>
         (indices_buffer (geometry w) \<noteq> None \<and> nb_instances (priv w) > 0
            \<longrightarrow> draw (priv w') = Some Draw_elements_instanced) \<and>
         (indices_buffer (geometry w) = None \<and> nb_instances (priv w) = 0
            \<longrightarrow> draw (priv w') = Some Draw_arrays) \<and>
         (indices_buffer (geometry w) = None \<and> nb_instances (priv w) > 0
            \<longrightarrow> draw (priv w') = Some Draw_arrays_instanced) \<and>
         (\<forall>cs w''. run_calls cs w' = Inr w'' \<longrightarrow> draw (priv w'') = draw (priv w'))"
  using render_init_draw [OF assms] by (auto dest: run_calls_keeps_draw)

theorem draw_procedure_decision_table_witness:
  "render_init demo_env demo_world = Inr (0, initialized demo_env demo_world) \<and>
   draw (priv (initialized demo_env demo_world)) = Some Draw_elements \<and>
   draw (priv (initialized demo_env (demo_world\<lparr>priv := demo_instanced\<rparr>)))
     = Some Draw_elements_instanced \<and>
   draw (priv (initialized demo_env (demo_world\<lparr>geometry := demo_unindexed\<rparr>)))
     = Some Draw_arrays \<and>
   draw (priv (initialized demo_env
      (demo_world\<lparr>priv := demo_instanced, geometry := demo_unindexed\<rparr>)))
     = Some Draw_arrays_instanced \<and>
   (\<exists>w''. run_calls [Call_update demo_env, Call_draw demo_env, Call_uninit]
             (initialized demo_env demo_world) = Inr w'' \<and>
          draw (priv w'') = Some Draw_elements)"
proof -
  let ?w1 = demo_world
  let ?w2 = "demo_world\<lparr>priv := demo_instanced\<rparr>"
  let ?w3 = "demo_world\<lparr>geometry := demo_unindexed\<rparr>"
  let ?w4 = "demo_world\<lparr>priv := demo_instanced, geometry := demo_unindexed\<rparr>"
  have h1: "render_init demo_env ?w1 = Inr (0, initialized demo_env ?w1)"
    by (simp add: eval_defs)
  have h2: "render_init demo_env ?w2 = Inr (0, initialized demo_env ?w2)"
    by (simp add: eval_defs)
  have h3: "render_init demo_env ?w3 = Inr (0, initialized demo_env ?w3)"
    by (simp add: eval_defs)
  have h4: "render_init demo_env ?w4 = Inr (0, initialized demo_env ?w4)"
    by (simp add: eval_defs)
  have g1: "indices_buffer (geometry ?w1) \<noteq> None \<and> nb_instances (priv ?w1) = 0"
    by (simp add: eval_defs)
  have g2: "indices_buffer (geometry ?w2) \<noteq> None \<and> nb_instances (priv ?w2) > 0"
    by (simp add: eval_defs)
  have g3: "indices_buffer (geometry ?w3) = None \<and> nb_instances (priv ?w3) = 0"
    by (simp add: eval_defs)
  have g4: "indices_buffer (geometry ?w4) = None \<and> nb_instances (priv ?w4) > 0"
    by (simp add: eval_defs)
  note t1 = draw_procedure_decision_table [OF h1]
  note t2 = draw_procedure_decision_table [OF h2]
  note t3 = draw_procedure_decision_table [OF h3]
  note t4 = draw_procedure_decision_table [OF h4]
  have d1: "draw (priv (initialized demo_env ?w1)) = Some Draw_elements"
    using t1 g1 by blast
  have d2: "draw (priv (initialized demo_env ?w2)) = Some Draw_elements_instanced"
    using t2 g2 by blast
  have d3: "draw (priv (initialized demo_env ?w3)) = Some Draw_arrays"
    using t3 g3 by blast
  have d4: "draw (priv (initialized demo_env ?w4)) = Some Draw_arrays_instanced"
    using t4 g4 by blast
  obtain w'' where r: "run_calls [Call_update demo_env, Call_draw demo_env, Call_uninit]
      (initialized demo_env ?w1) = Inr w''"
    by (simp add: eval_defs)
  with t1 d1 have "draw (priv w'') = Some Draw_elements" by metis
  with h1 d1 d2 d3 d4 r show ?thesis by blast
qed

text \<open>
  Claim C3. After a successful init \<open>pass_attributes\<close> is the map the specification
  describes: the user attributes copied entry by entry, then the position, UV and normal
  slots inserted in that order under \<open>ngl_position\<close>, \<open>ngl_uvcoord\<close> and \<open>ngl_normal\<close>,
  each if and only if the geometry's buffer is not NULL, overwriting an entry of the same
  name. So a reserved name whose slot is not NULL is bound to the builtin buffer, and
  every other name is bound as in the user's map (whose keys are unique).
\<close>

theorem pass_attributes_after_init:
  assumes "render_init e w = Inr (0, w')"
  shows "\<exists>m. pass_attributes (priv w') = Some m \<and>
           m = spec_pass_attributes (user_attributes w) (geometry w) \<and>
           (\<forall>name a. builtin_slot (geometry w) name = Some a \<longrightarrow> map_of m name = Some a) \<and>
           (distinct (map fst (user_attributes w)) \<longrightarrow>
              (\<forall>name. builtin_slot (geometry w) name = None \<longrightarrow>
                 map_of m name = map_of (user_attributes w) name))"
proof (intro exI conjI allI impI)
  show "pass_attributes (priv w') =
          Some (spec_pass_attributes (user_attributes w) (geometry w))"
    by (rule render_init_pass_attributes [OF assms])
next
  show "spec_pass_attributes (user_attributes w) (geometry w) =
          spec_pass_attributes (user_attributes w) (geometry w)" ..
next
  fix name a assume "builtin_slot (geometry w) name = Some a"
  then show "map_of (spec_pass_attributes (user_attributes w) (geometry w)) name = Some a"
    by (auto simp: builtin_slot_def spec_pass_attributes_def map_of_insert_slot
          split: if_splits)
next
  fix name assume d: "distinct (map fst (user_attributes w))"
    and n: "builtin_slot (geometry w) name = None"
  from n have "map_of (spec_pass_attributes (user_attributes w) (geometry w)) name =
      map_of (foldl (\<lambda>m (k, a). AList.update k a m) [] (user_attributes w)) name"
    by (auto simp: builtin_slot_def spec_pass_attributes_def map_of_insert_slot
          split: if_splits)
  also have "\<dots> = map_of (user_attributes w) name"
    by (simp add: map_of_foldl_update map_of_rev_distinct [OF d])
  finally show "map_of (spec_pass_attributes (user_attributes w) (geometry w)) name =
      map_of (user_attributes w) name" .
qed

theorem pass_attributes_after_init_witness:
  "render_init demo_env
       (demo_world\<lparr>priv := demo_render
          \<lparr>attributes := Some [(''ngl_position'', 24), (''color'', 34)]\<rparr>\<rparr>) =
     Inr (0, initialized demo_env
       (demo_world\<lparr>priv := demo_render
          \<lparr>attributes := Some [(''ngl_position'', 24), (''color'', 34)]\<rparr>\<rparr>)) \<and>
   builtin_slot demo_geometry ''ngl_position'' = Some 4 \<and>
   map_of [(''ngl_position'', 24::nat), (''color'', 34)] ''ngl_position'' = Some 24 \<and>
   distinct (map fst [(''ngl_position'', 24::nat), (''color'', 34)]) \<and>
   builtin_slot demo_geometry ''color'' = None \<and>
   (\<exists>m. pass_attributes (priv (initialized demo_env
            (demo_world\<lparr>priv := demo_render
               \<lparr>attributes := Some [(''ngl_position'', 24), (''color'', 34)]\<rparr>\<rparr>))) = Some m \<and>
        m = [(''ngl_position'', 4), (''color'', 34), (''ngl_uvcoord'', 14)] \<and>
        map_of m ''ngl_position'' = Some 4 \<and>
        map_of m ''color'' = Some 34)"
proof -
  let ?w = "demo_world\<lparr>priv := demo_render
          \<lparr>attributes := Some [(''ngl_position'', 24), (''color'', 34)]\<rparr>\<rparr>"
  have h: "render_init demo_env ?w = Inr (0, initialized demo_env ?w)"
    by (simp add: eval_defs)
  have u: "user_attributes ?w = [(''ngl_position'', 24), (''color'', 34)]"
    "geometry ?w = demo_geometry"
    by (simp_all add: user_attributes_def eval_defs)
  have s: "spec_pass_attributes [(''ngl_position'', 24), (''color'', 34)] demo_geometry =
      [(''ngl_position'', 4), (''color'', 34), (''ngl_uvcoord'', 14)]"
    by (simp add: spec_pass_attributes_def insert_slot_def demo_geometry_def)
  have b: "builtin_slot demo_geometry ''ngl_position'' = Some 4"
    "builtin_slot demo_geometry ''color'' = None"
    by (simp_all add: builtin_slot_def demo_geometry_def)
  have d: "distinct (map fst [(''ngl_position'', 24::nat), (''color'', 34)])" by simp
  have l: "map_of [(''ngl_position'', 24::nat), (''color'', 34)] ''ngl_position'' = Some 24"
    "map_of [(''ngl_position'', 24::nat), (''color'', 34)] ''color'' = Some 34"
    by simp_all
  from pass_attributes_after_init [OF h, unfolded u s] obtain m where
    m: "pass_attributes (priv (initialized demo_env ?w)) = Some m"
       "m = [(''ngl_position'', 4), (''color'', 34), (''ngl_uvcoord'', 14)]"
    and p: "\<forall>name a. builtin_slot demo_geometry name = Some a \<longrightarrow> map_of m name = Some a"
    and q: "distinct (map fst [(''ngl_position'', 24::nat), (''color'', 34)]) \<longrightarrow>
              (\<forall>name. builtin_slot demo_geometry name = None \<longrightarrow>
                 map_of m name = map_of [(''ngl_position'', 24), (''color'', 34)] name)"
    by (elim exE conjE) (rule that; assumption)
  from p b(1) have 1: "map_of m ''ngl_position'' = Some 4" by simp
  from q d b(2) l(2) have 2: "map_of m ''color'' = Some 34" by simp
  from m 1 2 have "\<exists>m. pass_attributes (priv (initialized demo_env ?w)) = Some m \<and>
        m = [(''ngl_position'', 4), (''color'', 34), (''ngl_uvcoord'', 14)] \<and>
        map_of m ''ngl_position'' = Some 4 \<and>
        map_of m ''color'' = Some 34"
    by (intro exI [where x = m] conjI)
  with h b d l(1) show ?thesis by (intro conjI)
qed

text \<open>
  Claim C4, amended. Every draw on an initialised node issues exactly one draw call, by
  the procedure selected at init and with the index type derived at init; the topology
  and the index or vertex count are read at draw time from the geometry and its buffers
  as they are then, whatever they were at init.
\<close>

theorem draw_reads_geometry_at_draw_time:
  assumes "render_init e w = Inr (0, w')"
    and "indices_buffer (geometry w) \<noteq> None \<longrightarrow> indices_buffer g = Some a"
    and "indices_buffer (geometry w) = None \<longrightarrow> vertices_buffer g = Some a"
  shows "(\<exists>evs. render_draw e' (w'\<lparr>geometry := g, bufs := b\<rparr>) =
            Inr (emit (bind_events e' @ evs @ unbind_events e') (w'\<lparr>geometry := g, bufs := b\<rparr>)) \<and>
            evs = table_draw_events (indices_buffer (geometry w) \<noteq> None)
                    (nb_instances (priv w)) (topology_get_gl_topology e' (topology g))
                    (count (b a)) (indices_type (priv w')) (buffer_id (b a)) \<and>
            length (filter is_draw_call evs) = 1) \<and>
         (\<forall>ib. indices_buffer (geometry w) = Some ib \<longrightarrow>
            indices_type (priv w') = format_get_gl_type e (data_format (bufs w ib)))"
  using render_draw_after_init [OF assms, of e' b] render_init_indices_type [OF assms(1)]
  by (simp add: table_draw_events_one)

theorem draw_reads_geometry_at_draw_time_witness:
  "render_init demo_env demo_world = Inr (0, initialized demo_env demo_world) \<and>
   indices_buffer (geometry demo_world) = Some 6 \<and>
   indices_buffer (demo_geometry\<lparr>topology := 1\<rparr>) = Some 6 \<and>
   render_draw demo_env
       ((initialized demo_env demo_world)
          \<lparr>geometry := demo_geometry\<lparr>topology := 1\<rparr>,
           bufs := demo_bufs (6 := (demo_bufs 6)\<lparr>count := 3\<rparr>)\<rparr>) =
     Inr (emit ([Pass_bind 0] @
                [GlBindBuffer GL_ELEMENT_ARRAY_BUFFER 6, GlDrawElements 1 3 5000 0] @
                [Pass_unbind 0])
            ((initialized demo_env demo_world)
               \<lparr>geometry := demo_geometry\<lparr>topology := 1\<rparr>,
                bufs := demo_bufs (6 := (demo_bufs 6)\<lparr>count := 3\<rparr>)\<rparr>)) \<and>
   indices_type (priv (initialized demo_env demo_world)) = 5000"
proof -
  let ?g = "demo_geometry\<lparr>topology := 1\<rparr>"
  let ?b = "demo_bufs (6 := (demo_bufs 6)\<lparr>count := 3\<rparr>)"
  have h: "render_init demo_env demo_world = Inr (0, initialized demo_env demo_world)"
    by (simp add: eval_defs)
  have i: "indices_buffer (geometry demo_world) = Some 6" "indices_buffer ?g = Some 6"
    by (simp_all add: eval_defs)
  have a: "indices_buffer (geometry demo_world) \<noteq> None \<longrightarrow> indices_buffer ?g = Some 6"
    "indices_buffer (geometry demo_world) = None \<longrightarrow> vertices_buffer ?g = Some 6"
    using i by simp_all
  note t = draw_reads_geometry_at_draw_time [OF h a, of demo_env ?b]
  have "format_get_gl_type demo_env (data_format (bufs demo_world 6)) = 5000"
    by (simp add: demo_defs)
  with t [THEN conjunct2, rule_format, OF i(1)]
  have ty: "indices_type (priv (initialized demo_env demo_world)) = 5000" by simp
  have v: "table_draw_events (indices_buffer (geometry demo_world) \<noteq> None)
             (nb_instances (priv demo_world)) (topology_get_gl_topology demo_env (topology ?g))
             (count (?b 6)) 5000 (buffer_id (?b 6)) =
           [GlBindBuffer GL_ELEMENT_ARRAY_BUFFER 6, GlDrawElements 1 3 5000 0]"
    "bind_events demo_env = [Pass_bind 0]" "unbind_events demo_env = [Pass_unbind 0]"
    by (simp_all add: spec_defs demo_defs)
  from t [THEN conjunct1] obtain evs where
    r: "render_draw demo_env ((initialized demo_env demo_world)\<lparr>geometry := ?g, bufs := ?b\<rparr>) =
          Inr (emit (bind_events demo_env @ evs @ unbind_events demo_env)
            ((initialized demo_env demo_world)\<lparr>geometry := ?g, bufs := ?b\<rparr>))"
    and e: "evs = table_draw_events (indices_buffer (geometry demo_world) \<noteq> None)
             (nb_instances (priv demo_world)) (topology_get_gl_topology demo_env (topology ?g))
             (count (?b 6)) (indices_type (priv (initialized demo_env demo_world)))
             (buffer_id (?b 6))"
    by blast
  from e have "evs = [GlBindBuffer GL_ELEMENT_ARRAY_BUFFER 6, GlDrawElements 1 3 5000 0]"
    unfolding ty v .
  with r have "render_draw demo_env ((initialized demo_env demo_world)\<lparr>geometry := ?g, bufs := ?b\<rparr>) =
     Inr (emit ([Pass_bind 0] @
                [GlBindBuffer GL_ELEMENT_ARRAY_BUFFER 6, GlDrawElements 1 3 5000 0] @
                [Pass_unbind 0])
            ((initialized demo_env demo_world)\<lparr>geometry := ?g, bufs := ?b\<rparr>))"
    unfolding v by simp
  with h i ty show ?thesis by blast
qed

text \<open>
  Claim C4 as stated fails: after an init with topology 4 and 6 indices, changing the
  geometry's topology to 1 and the index buffer's count to 3 changes the draw call from
  \<open>GlDrawElements 4 6\<close> to \<open>GlDrawElements 1 3\<close>.
\<close>

theorem draw_fixed_at_init_counterexample:
  "render_init demo_env demo_world = Inr (0, initialized demo_env demo_world) \<and>
   render_draw demo_env (initialized demo_env demo_world) =
     Inr (emit [Pass_bind 0, GlBindBuffer GL_ELEMENT_ARRAY_BUFFER 6,
                GlDrawElements 4 6 5000 0, Pass_unbind 0]
            (initialized demo_env demo_world)) \<and>
   render_draw demo_env
       ((initialized demo_env demo_world)
          \<lparr>geometry := demo_geometry\<lparr>topology := 1\<rparr>,
           bufs := demo_bufs (6 := (demo_bufs 6)\<lparr>count := 3\<rparr>)\<rparr>) =
     Inr (emit [Pass_bind 0, GlBindBuffer GL_ELEMENT_ARRAY_BUFFER 6,
                GlDrawElements 1 3 5000 0, Pass_unbind 0]
            ((initialized demo_env demo_world)
               \<lparr>geometry := demo_geometry\<lparr>topology := 1\<rparr>,
                bufs := demo_bufs (6 := (demo_bufs 6)\<lparr>count := 3\<rparr>)\<rparr>))"
  by (simp add: eval_defs)

text \<open>
  Claim C5. On an initialised node (whose geometry has a vertex buffer if it has no index
  buffer) \<open>render_draw\<close> always returns. It binds the pass, logs if the bind failed and goes on all the same,
  runs the selected draw procedure, which issues one draw call, unbinds the pass and
  only logs if the unbind failed; nothing else changes.
\<close>

theorem render_draw_never_fails:
  assumes "render_init e w = Inr (0, w')"
    and "indices_buffer (geometry w) = None \<longrightarrow> vertices_buffer (geometry w) \<noteq> None"
  shows "\<exists>evs. render_draw e' w' =
           Inr (emit ([Pass_bind (pass_bind_ret e')] @
                      (if pass_bind_ret e' < 0
                       then [Log_error ''pass upload data error'' []] else []) @
                      evs @
                      [Pass_unbind (pass_unbind_ret e')] @
                      (if pass_unbind_ret e' < 0
                       then [Log_error ''could not unbind pass'' []] else [])) w') \<and>
           length (filter is_draw_call evs) = 1"
proof -
  from render_init_success_frame [OF assms(1)] have g: "geometry w' = geometry w"
    by (simp add: frame_def)
  obtain a where a: "indices_buffer (geometry w) \<noteq> None \<longrightarrow> indices_buffer (geometry w') = Some a"
    "indices_buffer (geometry w) = None \<longrightarrow> vertices_buffer (geometry w') = Some a"
    using assms(2) g by (cases "indices_buffer (geometry w)") auto
  from render_draw_after_init [OF assms(1) a, of e' "bufs w'"]
  show ?thesis
    by (auto simp: bind_events_def unbind_events_def table_draw_events_one
          intro!: exI [where x = "table_draw_events (indices_buffer (geometry w) \<noteq> None)
             (nb_instances (priv w)) (topology_get_gl_topology e' (topology (geometry w')))
             (count (bufs w' a)) (indices_type (priv w')) (buffer_id (bufs w' a))"])
qed

theorem render_draw_never_fails_witness:
  "render_init demo_env (demo_world\<lparr>geometry := demo_unindexed\<rparr>) =
     Inr (0, initialized demo_env (demo_world\<lparr>geometry := demo_unindexed\<rparr>)) \<and>
   indices_buffer (geometry (demo_world\<lparr>geometry := demo_unindexed\<rparr>)) = None \<and>
   vertices_buffer (geometry (demo_world\<lparr>geometry := demo_unindexed\<rparr>)) = Some 4 \<and>
   (\<exists>evs. render_draw (demo_env\<lparr>pass_bind_ret := - 1, pass_unbind_ret := - 2\<rparr>)
             (initialized demo_env (demo_world\<lparr>geometry := demo_unindexed\<rparr>)) =
           Inr (emit ([Pass_bind (- 1)] @ [Log_error ''pass upload data error'' []] @
                      evs @
                      [Pass_unbind (- 2)] @ [Log_error ''could not unbind pass'' []])
                  (initialized demo_env (demo_world\<lparr>geometry := demo_unindexed\<rparr>))) \<and>
           length (filter is_draw_call evs) = 1) \<and>
   render_draw (demo_env\<lparr>pass_bind_ret := - 1, pass_unbind_ret := - 2\<rparr>)
       (initialized demo_env (demo_world\<lparr>geometry := demo_unindexed\<rparr>)) =
     Inr (emit [Pass_bind (- 1), Log_error ''pass upload data error'' [],
                GlDrawArrays 4 0 4,
                Pass_unbind (- 2), Log_error ''could not unbind pass'' []]
            (initialized demo_env (demo_world\<lparr>geometry := demo_unindexed\<rparr>)))"
proof -
  let ?w = "demo_world\<lparr>geometry := demo_unindexed\<rparr>"
  have h: "render_init demo_env ?w = Inr (0, initialized demo_env ?w)"
    by (simp add: eval_defs)
  have g: "indices_buffer (geometry ?w) = None" "vertices_buffer (geometry ?w) = Some 4"
    by (simp_all add: eval_defs)
  from g have v: "indices_buffer (geometry ?w) = None \<longrightarrow> vertices_buffer (geometry ?w) \<noteq> None"
    by simp
  note t = render_draw_never_fails [OF h v,
      of "demo_env\<lparr>pass_bind_ret := - 1, pass_unbind_ret := - 2\<rparr>"]
  from t have 1: "\<exists>evs. render_draw (demo_env\<lparr>pass_bind_ret := - 1, pass_unbind_ret := - 2\<rparr>)
             (initialized demo_env ?w) =
           Inr (emit ([Pass_bind (- 1)] @ [Log_error ''pass upload data error'' []] @
                      evs @
                      [Pass_unbind (- 2)] @ [Log_error ''could not unbind pass'' []])
                  (initialized demo_env ?w)) \<and>
           length (filter is_draw_call evs) = 1"
    by simp
  have 2: "render_draw (demo_env\<lparr>pass_bind_ret := - 1, pass_unbind_ret := - 2\<rparr>)
       (initialized demo_env ?w) =
     Inr (emit [Pass_bind (- 1), Log_error ''pass upload data error'' [],
                GlDrawArrays 4 0 4,
                Pass_unbind (- 2), Log_error ''could not unbind pass'' []]
            (initialized demo_env ?w))"
    by (simp add: eval_defs)
  from h g 1 2 show ?thesis by (intro conjI)
qed

text \<open>
  Claim C6. \<open>check_attributes\<close> succeeds on a NULL map and on an empty one. Otherwise
  every entry's buffer count is compared with the expected count (the geometry's vertex
  count when \<open>per_instance\<close> is 0, \<open>nb_instances\<close> when it is not): if all agree the check
  succeeds and leaves the state as it was; at the first entry that differs it returns -1
  after logging that entry's name, its count and the expected count, whatever entries
  follow.
\<close>

theorem check_attributes_validation:
  "check_attributes w None pi = Inr (0, w) \<and>
   check_attributes w (Some []) pi = Inr (0, w) \<and>
   (\<forall>n. expected_count w pi = Some n \<longrightarrow>
      (\<forall>es. (\<forall>(k, a) \<in> set es. count (bufs w a) = n) \<longrightarrow>
            check_attributes w (Some es) pi = Inr (0, w)) \<and>
      (\<forall>pre k a post.
         (\<forall>(k', a') \<in> set pre. count (bufs w a') = n) \<and> count (bufs w a) \<noteq> n \<longrightarrow>
         check_attributes w (Some (pre @ (k, a) # post)) pi =
           Inr (- 1, LOG_ERROR (mismatch_format pi)
                       [Arg_str k, Arg_int (count (bufs w a)), Arg_int n] w)))"
  by (simp add: check_attributes_def check_entries_all_match check_entries_first_mismatch)

theorem check_attributes_validation_witness:
  "expected_count demo_world 0 = Some 4 \<and>
   check_attributes demo_world (Some [(''color'', 34), (''tint'', 44)]) 0 = Inr (0, demo_world) \<and>
   check_attributes demo_world (Some ([(''color'', 34)] @ (''tint'', 45) # [(''glow'', 46)])) 0 =
     Inr (- 1, LOG_ERROR ''attribute buffer %s count (%d) does not match vertices count (%d)''
                 [Arg_str ''tint'', Arg_int 5, Arg_int 4] demo_world)"
proof -
  have h0: "expected_count demo_world 0 = Some 4"
    by (simp add: expected_count_def demo_defs)
  have m0: "\<forall>(k, a) \<in> set [(''color'', 34), (''tint'', 44)]. count (bufs demo_world a) = 4"
    by (simp add: demo_defs)
  have m1: "(\<forall>(k', a') \<in> set [(''color'', 34)]. count (bufs demo_world a') = 4)
            \<and> count (bufs demo_world 45) \<noteq> 4"
    by (simp add: demo_defs)
  note t = check_attributes_validation [of demo_world 0, THEN conjunct2, THEN conjunct2,
             rule_format, OF h0]
  have a: "check_attributes demo_world (Some [(''color'', 34), (''tint'', 44)]) 0 = Inr (0, demo_world)"
    using m0 by (intro t [THEN conjunct1, rule_format]) auto
  have b: "check_attributes demo_world (Some ([(''color'', 34)] @ (''tint'', 45) # [(''glow'', 46)])) 0 =
     Inr (- 1, LOG_ERROR (mismatch_format 0)
                 [Arg_str ''tint'', Arg_int (count (bufs demo_world 45)), Arg_int 4] demo_world)"
    using m1 by (intro t [THEN conjunct2, rule_format]) auto
  have v: "count (bufs demo_world 45) = 5" "mismatch_format 0 = ''attribute buffer %s count (%d) does not match vertices count (%d)''"
    by (simp_all add: demo_defs mismatch_format_def)
  show ?thesis using h0 a b unfolding v by simp
qed

text \<open>
  Claim C7, amended. On a node whose flag is clear, whenever init returns:
  \<open>has_indices_buffer_ref\<close> is set exactly when init acquired a reference, which is then
  one reference on the geometry's index buffer, and when init succeeded it is set if and
  only if the geometry has an index buffer; init releases nothing; a call of uninit
  releases the index buffer once if the flag is set and releases nothing if it is clear.
\<close>

theorem index_buffer_reference_lifetime:
  assumes "render_init e w = Inr (r, w')" and "has_indices_buffer_ref (priv w) = 0"
  shows "(has_indices_buffer_ref (priv w') \<noteq> 0 \<longrightarrow>
            (\<exists>ib. indices_buffer (geometry w) = Some ib \<and> acquired (new_events w w') = [ib])) \<and>
         (has_indices_buffer_ref (priv w') = 0 \<longrightarrow> acquired (new_events w w') = []) \<and>
         (r = 0 \<longrightarrow>
            (has_indices_buffer_ref (priv w') \<noteq> 0 \<longleftrightarrow> indices_buffer (geometry w) \<noteq> None)) \<and>
         released (new_events w w') = [] \<and>
         released (new_events w' (render_uninit w')) =
           (if has_indices_buffer_ref (priv w') \<noteq> 0 then [indices_buffer (geometry w)] else [])"
proof -
  from render_init_ref_outcome [OF assms(1)] obtain evs where
    g: "geometry w' = geometry w" and t: "trace w' = trace w @ evs" and r: "released evs = []"
    and o: "(has_indices_buffer_ref (priv w') = has_indices_buffer_ref (priv w) \<and> acquired evs = []) \<or>
         (has_indices_buffer_ref (priv w') = 1 \<and>
          (\<exists>ib. indices_buffer (geometry w) = Some ib \<and> acquired evs = [ib]))"
    by blast
  note n = new_events_append [OF t]
  have s: "r = 0 \<longrightarrow>
      (has_indices_buffer_ref (priv w') \<noteq> 0 \<longleftrightarrow> indices_buffer (geometry w) \<noteq> None)"
    using render_init_success_flag [of e w w'] assms by auto
  from o assms(2) r s show ?thesis
    unfolding n render_uninit_released g by auto
qed

theorem index_buffer_reference_lifetime_witness:
  "render_init demo_env demo_world = Inr (0, initialized demo_env demo_world) \<and>
   has_indices_buffer_ref (priv demo_world) = 0 \<and>
   indices_buffer (geometry demo_world) = Some 6 \<and>
   has_indices_buffer_ref (priv (initialized demo_env demo_world)) \<noteq> 0 \<and>
   acquired (new_events demo_world (initialized demo_env demo_world)) = [6] \<and>
   released (new_events demo_world (initialized demo_env demo_world)) = [] \<and>
   released (new_events (initialized demo_env demo_world)
               (render_uninit (initialized demo_env demo_world))) = [Some 6]"
proof -
  let ?w1 = "initialized demo_env demo_world"
  have h: "render_init demo_env demo_world = Inr (0, ?w1)" by (simp add: eval_defs)
  have f: "has_indices_buffer_ref (priv demo_world) = 0" by (simp add: eval_defs)
  have i: "indices_buffer (geometry demo_world) = Some 6" by (simp add: eval_defs)
  note t = index_buffer_reference_lifetime [OF h f]
  from t i have 1: "has_indices_buffer_ref (priv ?w1) \<noteq> 0" by simp
  from t 1 i have 2: "acquired (new_events demo_world ?w1) = [6]" by auto
  from t have 3: "released (new_events demo_world ?w1) = []" by blast
  from t 1 i have 4: "released (new_events ?w1 (render_uninit ?w1)) = [Some 6]" by simp
  from h f i 1 2 3 4 show ?thesis by blast
qed

text \<open>
  Claim C7 as stated fails: \<open>render_uninit\<close> does not clear the flag, so a second uninit
  releases the index buffer a second time; and an init that fails to acquire the
  reference leaves the flag clear although the geometry has an index buffer.
\<close>

theorem double_uninit_counterexample:
  "render_init demo_env demo_world = Inr (0, initialized demo_env demo_world) \<and>
   has_indices_buffer_ref (priv (initialized demo_env demo_world)) = 1 \<and>
   has_indices_buffer_ref (priv (render_uninit (initialized demo_env demo_world))) = 1 \<and>
   released (new_events (initialized demo_env demo_world)
               (render_uninit (render_uninit (initialized demo_env demo_world))))
     = [Some 6, Some 6] \<and>
   indices_buffer (geometry demo_world) = Some 6 \<and>
   render_init (demo_env\<lparr>buffer_ref_ret := - 1\<rparr>) demo_world =
     Inr (- 1, initialized (demo_env\<lparr>buffer_ref_ret := - 1\<rparr>) demo_world) \<and>
   has_indices_buffer_ref (priv (initialized (demo_env\<lparr>buffer_ref_ret := - 1\<rparr>) demo_world)) = 0"
  by (simp add: eval_defs new_events_def)

text \<open>
  Claim C8. When init gets as far as the index buffer, acquires the reference and finds
  that the buffer references a block, it returns -1 with the reference already acquired
  and \<open>has_indices_buffer_ref\<close> already 1 (and, if no program was given, with the default
  program created, attached and stored): init itself releases nothing, and a later
  uninit releases the reference.
\<close>

theorem init_not_atomic_on_block_backed_indices:
  assumes "\<not> (nb_instances (priv w) \<noteq> 0 \<and> NGLI_FEATURE_DRAW_INSTANCED \<notin> features e)"
    and "\<not> (instance_attributes (priv w) \<noteq> None \<and> NGLI_FEATURE_INSTANCED_ARRAY \<notin> features e)"
    and "vertices_buffer (geometry w) \<noteq> None"
    and "\<not> count_mismatch w (attributes (priv w)) 0"
    and "\<not> count_mismatch w (instance_attributes (priv w)) 1"
    and "\<not> program_error e w"
    and "indices_buffer (geometry w) = Some ib"
    and "0 \<le> buffer_ref_ret e"
    and "block (bufs w ib) \<noteq> None"
  shows "\<exists>w'. render_init e w = Inr (- 1, w') \<and>
           has_indices_buffer_ref (priv w') = 1 \<and>
           program (priv w') \<noteq> None \<and>
           (program (priv w) = None \<longrightarrow> program (priv w') = node_create e) \<and>
           new_events w w' =
             default_program_events e w @
             [Node_buffer_ref ib (buffer_ref_ret e),
              Log_error ''geometry indices buffers referencing a block are not supported'' []] \<and>
           acquired (new_events w w') = [ib] \<and>
           released (new_events w w') = [] \<and>
           released (new_events w' (render_uninit w')) = [Some ib] \<and>
           pass_attributes (priv w') = pass_attributes (priv w) \<and>
           draw (priv w') = draw (priv w)"
proof -
  from assms(3) obtain n0 where n0: "expected_count w 0 = Some n0"
    by (auto simp: expected_count_def)
  have n1: "expected_count w 1 = Some (nb_instances (priv w))"
    by (simp add: expected_count_def)
  have c0: "instancing_checks e w = Inr (0, w)"
    using assms(1,2) by (auto simp: instancing_checks_def)
  have c1: "check_attributes w (attributes (priv w)) 0 = Inr (0, w)"
    using check_attributes_total [OF n0, of "attributes (priv w)"] assms(4) by auto
  have c2: "check_attributes w (instance_attributes (priv w)) 1 = Inr (0, w)"
    using check_attributes_total [OF n1, of "instance_attributes (priv w)"] assms(5) by auto
  define evs1 where "evs1 =
       [Node_buffer_ref ib (buffer_ref_ret e),
        Log_error ''geometry indices buffers referencing a block are not supported'' []]"
  from init_program_ok_explicit [OF assms(6)] obtain w3 where
    all3: "init_program e w = Inr (0, w3) \<and>
     geometry w3 = geometry w \<and> bufs w3 = bufs w \<and>
     program (priv w3) \<noteq> None \<and>
     (program (priv w) = None \<longrightarrow> program (priv w3) = node_create e) \<and>
     pass_attributes (priv w3) = pass_attributes (priv w) \<and>
     draw (priv w3) = draw (priv w) \<and>
     trace w3 = trace w @ default_program_events e w" ..
  from all3 have c3: "init_program e w = Inr (0, w3)" by (rule conjunct1)
  from all3 have g3: "geometry w3 = geometry w" "bufs w3 = bufs w" by simp_all
  from all3 have p3: "program (priv w3) \<noteq> None"
    "program (priv w) = None \<longrightarrow> program (priv w3) = node_create e" by simp_all
  from all3 have k3: "pass_attributes (priv w3) = pass_attributes (priv w)"
    "draw (priv w3) = draw (priv w)" by simp_all
  from all3 have t3: "trace w3 = trace w @ default_program_events e w" by simp
  define w4 where "w4 = w3\<lparr>priv := (priv w3)\<lparr>has_indices_buffer_ref := 1\<rparr>,
                 trace := trace w3 @ evs1\<rparr>"
  have i3: "indices_buffer (geometry w3) = Some ib" "block (bufs w3 ib) \<noteq> None"
    using assms(7,9) g3 by simp_all
  have c4: "init_indices e w3 = Inr (- 1, w4)"
    unfolding w4_def evs1_def by (rule init_indices_block [OF i3(1) assms(8) i3(2)])
  have r: "render_init e w = Inr (- 1, w4)"
    by (simp add: render_init_def and_then_def c0 c1 c2 c3 c4)
  have f: "has_indices_buffer_ref (priv w4) = 1" "geometry w4 = geometry w"
    by (simp_all add: w4_def g3)
  have p: "program (priv w4) \<noteq> None"
    "program (priv w) = None \<longrightarrow> program (priv w4) = node_create e"
    using p3 by (simp_all add: w4_def)
  have k: "pass_attributes (priv w4) = pass_attributes (priv w)" "draw (priv w4) = draw (priv w)"
    using k3 by (simp_all add: w4_def)
  have t: "trace w4 = trace w @ (default_program_events e w @ evs1)" by (simp add: w4_def t3)
  note n = new_events_append [OF t]
  have a1: "acquired evs1 = [ib]" "released evs1 = []"
    using assms(8) by (simp_all add: evs1_def)
  have a: "acquired (new_events w w4) = [ib]" "released (new_events w w4) = []"
    unfolding n by (simp_all add: acquired_append released_append default_program_events_quiet a1)
  have u: "released (new_events w4 (render_uninit w4)) = [Some ib]"
    unfolding render_uninit_released f using assms(7) by simp
  have n': "new_events w w4 = default_program_events e w @
             [Node_buffer_ref ib (buffer_ref_ret e),
              Log_error ''geometry indices buffers referencing a block are not supported'' []]"
    unfolding n evs1_def ..
  show ?thesis
    apply (rule exI [where x = w4])
    apply (intro conjI)
             apply (rule r)
            apply (rule f(1))
           apply (rule p(1))
          apply (rule p(2))
         apply (rule n')
        apply (rule a(1))
       apply (rule a(2))
      apply (rule u)
     apply (rule k(1))
    apply (rule k(2))
    done
qed

theorem init_not_atomic_on_block_backed_indices_witness:
  "\<exists>w'. render_init demo_env
            (demo_world\<lparr>geometry := demo_geometry\<lparr>indices_buffer := Some 96\<rparr>\<rparr>) =
           Inr (- 1, w') \<and>
         has_indices_buffer_ref (priv w') = 1 \<and>
         program (priv w') = Some 100 \<and>
         new_events (demo_world\<lparr>geometry := demo_geometry\<lparr>indices_buffer := Some 96\<rparr>\<rparr>) w' =
           [Node_create_program (Some 100), Node_attach_ctx 100 0, Node_buffer_ref 96 0,
            Log_error ''geometry indices buffers referencing a block are not supported'' []] \<and>
         acquired
           (new_events (demo_world\<lparr>geometry := demo_geometry\<lparr>indices_buffer := Some 96\<rparr>\<rparr>) w')
           = [96] \<and>
         released (new_events w' (render_uninit w')) = [Some 96]"
proof -
  let ?w = "demo_world\<lparr>geometry := demo_geometry\<lparr>indices_buffer := Some 96\<rparr>\<rparr>"
  have 1: "\<not> (nb_instances (priv ?w) \<noteq> 0 \<and> NGLI_FEATURE_DRAW_INSTANCED \<notin> features demo_env)"
    by (simp add: demo_defs)
  have 2: "\<not> (instance_attributes (priv ?w) \<noteq> None \<and>
              NGLI_FEATURE_INSTANCED_ARRAY \<notin> features demo_env)"
    by (simp add: demo_defs)
  have 3: "vertices_buffer (geometry ?w) \<noteq> None" by (simp add: demo_defs)
  have 4: "\<not> count_mismatch ?w (attributes (priv ?w)) 0"
    by (simp add: count_mismatch_def expected_count_def demo_defs)
  have 5: "\<not> count_mismatch ?w (instance_attributes (priv ?w)) 1"
    by (simp add: count_mismatch_def demo_defs)
  have 6: "\<not> program_error demo_env ?w" by (simp add: program_error_def demo_defs)
  have 7: "indices_buffer (geometry ?w) = Some 96" by (simp add: demo_defs)
  have 8: "0 \<le> buffer_ref_ret demo_env" by (simp add: demo_defs)
  have 9: "block (bufs ?w 96) \<noteq> None" by (simp add: demo_defs)
  have p: "program (priv ?w) = None" "node_create demo_env = Some 100"
    "default_program_events demo_env ?w =
       [Node_create_program (Some 100), Node_attach_ctx 100 0]"
    "buffer_ref_ret demo_env = 0"
    by (simp_all add: default_program_events_def demo_defs)
  from init_not_atomic_on_block_backed_indices [OF 1 2 3 4 5 6 7 8 9]
  obtain w' where w: "render_init demo_env ?w = Inr (- 1, w')"
    "has_indices_buffer_ref (priv w') = 1"
    "program (priv ?w) = None \<longrightarrow> program (priv w') = node_create demo_env"
    "new_events ?w w' = default_program_events demo_env ?w @
       [Node_buffer_ref 96 (buffer_ref_ret demo_env),
        Log_error ''geometry indices buffers referencing a block are not supported'' []]"
    "acquired (new_events ?w w') = [96]"
    "released (new_events w' (render_uninit w')) = [Some 96]"
    by (elim exE conjE) (rule that; assumption)
  from w(3) p have "program (priv w') = Some 100" by simp
  moreover from w(4) have "new_events ?w w' =
           [Node_create_program (Some 100), Node_attach_ctx 100 0, Node_buffer_ref 96 0,
            Log_error ''geometry indices buffers referencing a block are not supported'' []]"
    unfolding p by simp
  ultimately show ?thesis using w(1,2,5,6) by (intro exI [where x = w'] conjI)
qed

text \<open>
  Claim C9. With \<open>nb_instances = 0\<close> the instance attributes are still validated, against
  the count 0: an instance attribute buffer with a non-zero count makes the check fail
  with the instance-count message, and init fails.
\<close>

theorem instance_attributes_checked_without_instancing:
  assumes "nb_instances (priv w) = 0"
    and "instance_attributes (priv w) = Some es"
    and "(k, a) \<in> set es"
    and "count (bufs w a) \<noteq> 0"
    and "vertices_buffer (geometry w) \<noteq> None"
  shows "expected_count w 1 = Some 0 \<and>
         (\<exists>k' a'. (k', a') \<in> set es \<and> count (bufs w a') \<noteq> 0 \<and>
            check_attributes w (instance_attributes (priv w)) 1 =
              Inr (- 1, LOG_ERROR
                     ''attribute buffer %s count (%d) does not match instance count (%d)''
                     [Arg_str k', Arg_int (count (bufs w a')), Arg_int 0] w)) \<and>
         (\<exists>r w'. render_init e w = Inr (r, w') \<and> r < 0)"
proof (intro conjI)
  show x: "expected_count w 1 = Some 0" using assms(1) by (simp add: expected_count_def)
  from assms(3,4) have "find (\<lambda>(k, a). count (bufs w a) \<noteq> 0) es \<noteq> None"
    by (auto simp: find_None_iff)
  then obtain k' a' where f: "find (\<lambda>(k, a). count (bufs w a) \<noteq> 0) es = Some (k', a')"
    by auto
  from find_SomeD [OF f] have "(k', a') \<in> set es" "count (bufs w a') \<noteq> 0" by auto
  moreover have "check_attributes w (instance_attributes (priv w)) 1 =
      Inr (- 1, LOG_ERROR
             ''attribute buffer %s count (%d) does not match instance count (%d)''
             [Arg_str k', Arg_int (count (bufs w a')), Arg_int 0] w)"
    by (simp add: check_attributes_def assms(2) check_entries_find [OF x] f
          mismatch_format_def)
  ultimately show "\<exists>k' a'. (k', a') \<in> set es \<and> count (bufs w a') \<noteq> 0 \<and>
            check_attributes w (instance_attributes (priv w)) 1 =
              Inr (- 1, LOG_ERROR
                     ''attribute buffer %s count (%d) does not match instance count (%d)''
                     [Arg_str k', Arg_int (count (bufs w a')), Arg_int 0] w)" by blast
  from assms(2,3,4) x have "count_mismatch w (instance_attributes (priv w)) 1"
    by (auto simp: count_mismatch_def)
  then have "init_failure_condition e w" by (simp add: init_failure_condition_def)
  with render_init_total [OF assms(5), of e]
  show "\<exists>r w'. render_init e w = Inr (r, w') \<and> r < 0" by blast
qed

theorem instance_attributes_checked_without_instancing_witness:
  "nb_instances (priv (demo_world\<lparr>priv := demo_render
      \<lparr>instance_attributes := Some [(''offset'', 12)]\<rparr>\<rparr>)) = 0 \<and>
   count (bufs (demo_world\<lparr>priv := demo_render
      \<lparr>instance_attributes := Some [(''offset'', 12)]\<rparr>\<rparr>) 12) \<noteq> 0 \<and>
   (\<exists>r w'. render_init demo_env (demo_world\<lparr>priv := demo_render
      \<lparr>instance_attributes := Some [(''offset'', 12)]\<rparr>\<rparr>) = Inr (r, w') \<and> r < 0)"
proof -
  let ?w = "demo_world\<lparr>priv := demo_render
      \<lparr>instance_attributes := Some [(''offset'', 12)]\<rparr>\<rparr>"
  have 1: "nb_instances (priv ?w) = 0" by (simp add: eval_defs)
  have 2: "instance_attributes (priv ?w) = Some [(''offset'', 12)]" by (simp add: eval_defs)
  have 3: "(''offset'', 12) \<in> set [(''offset'', 12::nat)]" by simp
  have 4: "count (bufs ?w 12) \<noteq> 0" by (simp add: eval_defs)
  have 5: "vertices_buffer (geometry ?w) \<noteq> None" by (simp add: eval_defs)
  from instance_attributes_checked_without_instancing [OF 1 2 3 4 5, of demo_env] 1 4
  show ?thesis by blast
qed

text \<open>
  Claim C10. With a negative \<open>nb_instances\<close> the capability check treats the node as
  instanced (without instanced draws init fails with the capability error), while the
  selection treats it as non-instanced: an init that succeeds has selected
  \<open>draw_elements\<close> or \<open>draw_arrays\<close>.
\<close>

theorem negative_nb_instances_inconsistent:
  assumes "nb_instances (priv w) < 0"
  shows "(NGLI_FEATURE_DRAW_INSTANCED \<notin> features e \<longrightarrow>
            render_init e w =
              Inr (- 1, LOG_ERROR ''context does not support instanced draws'' [] w)) \<and>
         (\<forall>w'. render_init e w = Inr (0, w') \<longrightarrow>
            NGLI_FEATURE_DRAW_INSTANCED \<in> features e \<and>
            draw (priv w') =
              Some (if indices_buffer (geometry w) \<noteq> None then Draw_elements else Draw_arrays))"
proof (intro conjI impI allI)
  assume "NGLI_FEATURE_DRAW_INSTANCED \<notin> features e"
  with assms show "render_init e w =
      Inr (- 1, LOG_ERROR ''context does not support instanced draws'' [] w)"
    by (simp add: render_init_def instancing_checks_def and_then_def)
next
  fix w' assume i: "render_init e w = Inr (0, w')"
  from render_init_success_chain [OF i] have "instancing_checks e w = Inr (0, w)" by blast
  with assms show "NGLI_FEATURE_DRAW_INSTANCED \<in> features e"
    by (auto simp: instancing_checks_def split: if_splits)
next
  fix w' assume i: "render_init e w = Inr (0, w')"
  from render_init_draw [OF i] assms
  show "draw (priv w') =
      Some (if indices_buffer (geometry w) \<noteq> None then Draw_elements else Draw_arrays)"
    by simp
qed

theorem negative_nb_instances_inconsistent_witness:
  "nb_instances (priv (demo_world\<lparr>priv := demo_render\<lparr>nb_instances := - 1\<rparr>\<rparr>)) < 0 \<and>
   NGLI_FEATURE_DRAW_INSTANCED \<notin> features (demo_env\<lparr>features := {}\<rparr>) \<and>
   render_init (demo_env\<lparr>features := {}\<rparr>)
       (demo_world\<lparr>priv := demo_render\<lparr>nb_instances := - 1\<rparr>\<rparr>) =
     Inr (- 1, LOG_ERROR ''context does not support instanced draws'' []
                 (demo_world\<lparr>priv := demo_render\<lparr>nb_instances := - 1\<rparr>\<rparr>)) \<and>
   render_init demo_env (demo_world\<lparr>priv := demo_render\<lparr>nb_instances := - 1\<rparr>\<rparr>) =
     Inr (0, initialized demo_env (demo_world\<lparr>priv := demo_render\<lparr>nb_instances := - 1\<rparr>\<rparr>)) \<and>
   draw (priv (initialized demo_env (demo_world\<lparr>priv := demo_render\<lparr>nb_instances := - 1\<rparr>\<rparr>)))
     = Some Draw_elements"
proof -
  let ?w = "demo_world\<lparr>priv := demo_render\<lparr>nb_instances := - 1\<rparr>\<rparr>"
  have n: "nb_instances (priv ?w) < 0" by (simp add: eval_defs)
  have f: "NGLI_FEATURE_DRAW_INSTANCED \<notin> features (demo_env\<lparr>features := {}\<rparr>)" by simp
  have h: "render_init demo_env ?w = Inr (0, initialized demo_env ?w)"
    by (simp add: eval_defs)
  have i: "indices_buffer (geometry ?w) \<noteq> None" by (simp add: eval_defs)
  note a = negative_nb_instances_inconsistent [OF n, of "demo_env\<lparr>features := {}\<rparr>",
      THEN conjunct1, rule_format, OF f]
  note b = negative_nb_instances_inconsistent [OF n, of demo_env,
      THEN conjunct2, rule_format, OF h, THEN conjunct2]
  from b i have "draw (priv (initialized demo_env ?w)) = Some Draw_elements" by simp
  with n f a h show ?thesis by blast
qed

end
